theory Spec2Isabelle
  imports Complex_Main
begin

section \<open>Python values used by bus.py\<close>

text \<open>
  Exceptions of the source are values.  A stateful function of the source is a function
  from the state to a pair: the result (\<open>Inl\<close> the exception raised, \<open>Inr\<close> the value
  returned) and the state at that moment, so that what a raise leaves behind in the
  process-wide registries stays visible.
\<close>

datatype error =
    ValueError | TypeError | IndexError | KeyError | AssertionError
  | OSError | ParseError | RequestException

text \<open>
  Strings are lists of characters with code points 0..255.  \<open>isspace\<close> is the whitespace
  of \<open>str.strip()\<close> in that range; \<open>int_space\<close> is the whitespace that \<open>int()\<close> skips
  (it does not skip the separators 0x1C..0x1F).
\<close>

definition isspace :: "char \<Rightarrow> bool" where
  "isspace c = (let n = (of_char c :: nat) in
     (9 \<le> n \<and> n \<le> 13) \<or> (28 \<le> n \<and> n \<le> 32) \<or> n = 133 \<or> n = 160)"

definition int_space :: "char \<Rightarrow> bool" where
  "int_space c = (let n = (of_char c :: nat) in
     (9 \<le> n \<and> n \<le> 13) \<or> n = 32 \<or> n = 133 \<or> n = 160)"

definition is_digit :: "char \<Rightarrow> bool" where
  "is_digit c = (let n = (of_char c :: nat) in 48 \<le> n \<and> n \<le> 57)"

definition digit_val :: "char \<Rightarrow> int" where
  "digit_val c = of_char c - 48"

definition strip_by :: "(char \<Rightarrow> bool) \<Rightarrow> string \<Rightarrow> string" where
  "strip_by p s = rev (dropWhile p (rev (dropWhile p s)))"

definition strip :: "string \<Rightarrow> string" where
  "strip s = strip_by isspace s"

text \<open>\<open>s.split(sep)\<close> for a one-character separator: never an empty list.\<close>

fun split_on :: "char \<Rightarrow> string \<Rightarrow> string list" where
  "split_on sep [] = [[]]"
| "split_on sep (c # cs) =
     (if c = sep then [] # split_on sep cs
      else (case split_on sep cs of
              [] \<Rightarrow> [[c]]
            | w # ws \<Rightarrow> (c # w) # ws))"

text \<open>
  \<open>int(s)\<close> on a string, base 10: surrounding whitespace, an optional sign, then decimal
  digits in which single underscores may stand between two digits.  \<open>None\<close> is
  ValueError.  (The bound that later interpreters put on the number of digits is not
  modelled; the date fields of a service code have at most four characters.)
\<close>

fun parse_digits :: "string \<Rightarrow> int \<Rightarrow> int option" where
  "parse_digits [] acc = Some acc"
| "parse_digits (c # cs) acc =
     (if is_digit c then parse_digits cs (10 * acc + digit_val c)
      else if c = CHR ''_'' then
        (case cs of
           [] \<Rightarrow> None
         | d # ds \<Rightarrow> if is_digit d then parse_digits ds (10 * acc + digit_val d) else None)
      else None)"

definition digits_val :: "string \<Rightarrow> int option" where
  "digits_val t = (case t of
       [] \<Rightarrow> None
     | c # cs \<Rightarrow> if is_digit c then parse_digits cs (digit_val c) else None)"

definition py_int :: "string \<Rightarrow> int option" where
  "py_int s = (case strip_by int_space s of
       [] \<Rightarrow> None
     | c # cs \<Rightarrow>
         if c = CHR ''-'' then map_option uminus (digits_val cs)
         else if c = CHR ''+'' then digits_val cs
         else digits_val (c # cs))"

text \<open>The value of a string of decimal digits, most significant first.\<close>

definition dec :: "string \<Rightarrow> int" where
  "dec s = foldl (\<lambda>a c. 10 * a + digit_val c) 0 s"

subsection \<open>datetime.date\<close>

record date =
  year :: int
  month :: int
  day :: int

definition is_leap :: "int \<Rightarrow> bool" where
  "is_leap y = (y mod 4 = 0 \<and> (y mod 100 \<noteq> 0 \<or> y mod 400 = 0))"

definition days_in_month :: "int \<Rightarrow> int \<Rightarrow> int" where
  "days_in_month y m =
     (if m = 2 then (if is_leap y then 29 else 28)
      else if m = 4 \<or> m = 6 \<or> m = 9 \<or> m = 11 then 30 else 31)"

definition days_before_year :: "int \<Rightarrow> int" where
  "days_before_year y = (let p = y - 1 in p * 365 + p div 4 - p div 100 + p div 400)"

definition days_before_month :: "int \<Rightarrow> int \<Rightarrow> int" where
  "days_before_month y m =
     [0, 31, 59, 90, 120, 151, 181, 212, 243, 273, 304, 334] ! nat (m - 1)
       + (if 2 < m \<and> is_leap y then 1 else 0)"

text \<open>\<open>date(y, m, d)\<close>: ValueError outside the proleptic Gregorian calendar of years 1..9999.\<close>

definition py_date :: "int \<Rightarrow> int \<Rightarrow> int \<Rightarrow> error + date" where
  "py_date y m d =
     (if 1 \<le> y \<and> y \<le> 9999 \<and> 1 \<le> m \<and> m \<le> 12 \<and> 1 \<le> d \<and> d \<le> days_in_month y m
      then Inr \<lparr>year = y, month = m, day = d\<rparr>
      else Inl ValueError)"

definition toordinal :: "date \<Rightarrow> int" where
  "toordinal d = days_before_year (year d) + days_before_month (year d) (month d) + day d"

text \<open>\<open>d.weekday()\<close>: Monday is 0, Sunday is 6.\<close>

definition weekday :: "date \<Rightarrow> nat" where
  "weekday d = nat ((toordinal d + 6) mod 7)"

text \<open>\<open>a <= b\<close> on dates compares (year, month, day).\<close>

definition date_le :: "date \<Rightarrow> date \<Rightarrow> bool" where
  "date_le a b =
     (year a < year b \<or>
      (year a = year b \<and> (month a < month b \<or> (month a = month b \<and> day a \<le> day b))))"

section \<open>The schedule catalog: BusTrip, BusService, BusRoute\<close>

record BusTrip =
  t_id :: string
  headsign :: string
  short_name :: string
  direction :: string
  block :: string

text \<open>
  A service holds its trips by value (a trip is never mutated).  The dictionaries of the
  source are maps; the claims below do not depend on their iteration order.
\<close>

record BusService =
  s_id :: string
  trips :: "string \<rightharpoonup> BusTrip"
  valid_from :: date
  weekdays :: "bool list"

text \<open>
  A route refers to its services: \<open>_services\<close> maps a service id to the service object,
  which is the one object registered under that id in \<open>_all_services\<close> (the only
  constructor call is in \<open>BusService.get\<close>, for an id that is not registered, and that
  registry is never emptied).  The model keeps the ids, in insertion order.
\<close>

record BusRoute =
  r_id :: string
  services :: "string list"

record catalog =
  all_trips :: "string \<rightharpoonup> BusTrip"
  all_services :: "string \<rightharpoonup> BusService"
  all_routes :: "string \<rightharpoonup> BusRoute"

definition empty_catalog :: catalog where
  "empty_catalog = \<lparr>all_trips = Map.empty, all_services = Map.empty, all_routes = Map.empty\<rparr>"

text \<open>\<open>BusService.__init__\<close>: the three \<open>int()\<close> calls, then \<open>date()\<close>, then the weekdays.\<close>

definition BusService_init :: "string \<Rightarrow> catalog \<Rightarrow> (error + BusService) \<times> catalog" where
  "BusService_init service_id st =
     (case py_int (take 4 service_id) of
        None \<Rightarrow> (Inl ValueError, st)
      | Some y \<Rightarrow>
     (case py_int (take 2 (drop 4 service_id)) of
        None \<Rightarrow> (Inl ValueError, st)
      | Some m \<Rightarrow>
     (case py_int (take 2 (drop 6 service_id)) of
        None \<Rightarrow> (Inl ValueError, st)
      | Some d \<Rightarrow>
     (case py_date y m d of
        Inl e \<Rightarrow> (Inl e, st)
      | Inr vf \<Rightarrow>
          (let self = \<lparr>s_id = service_id, trips = Map.empty, valid_from = vf,
                       weekdays = map (\<lambda>c. c \<noteq> CHR ''-'') (take 7 (drop 9 service_id))\<rparr>
           in (Inr self, st\<lparr>all_services := (all_services st)(service_id \<mapsto> self)\<rparr>))))))"

text \<open>\<open>BusService.get\<close>: a registered object is truthy, so \<open>or\<close> returns it.\<close>

definition BusService_get :: "string \<Rightarrow> catalog \<Rightarrow> (error + BusService) \<times> catalog" where
  "BusService_get service_id st =
     (case all_services st service_id of
        Some s \<Rightarrow> (Inr s, st)
      | None \<Rightarrow> BusService_init service_id st)"

text \<open>
  \<open>is_active_on_date\<close>: \<open>and\<close> evaluates the index only when the date comparison holds;
  an index beyond the list raises IndexError (\<open>weekday()\<close> is never negative).
\<close>

definition is_active_on_date :: "BusService \<Rightarrow> date \<Rightarrow> error + bool" where
  "is_active_on_date self on_date =
     (if date_le (valid_from self) on_date
      then (let i = weekday on_date in
            if i < length (weekdays self) then Inr (weekdays self ! i) else Inl IndexError)
      else Inr False)"

section \<open>Loading the catalog: BusRoute.initialize\<close>

definition BusTrip_init ::
  "string \<Rightarrow> string \<Rightarrow> string \<Rightarrow> string \<Rightarrow> string \<Rightarrow> catalog \<Rightarrow> BusTrip \<times> catalog" where
  "BusTrip_init tid hs sn dir blk st =
     (let self = \<lparr>t_id = tid, headsign = hs, short_name = sn, direction = dir, block = blk\<rparr>
      in (self, st\<lparr>all_trips := (all_trips st)(tid \<mapsto> self)\<rparr>))"

definition BusRoute_init :: "string \<Rightarrow> catalog \<Rightarrow> BusRoute \<times> catalog" where
  "BusRoute_init route_id st =
     (let self = \<lparr>r_id = route_id, services = []\<rparr>
      in (self, st\<lparr>all_routes := (all_routes st)(route_id \<mapsto> self)\<rparr>))"

definition BusRoute_get :: "string \<Rightarrow> catalog \<Rightarrow> BusRoute \<times> catalog" where
  "BusRoute_get route_id st =
     (case all_routes st route_id of
        Some r \<Rightarrow> (r, st)
      | None \<Rightarrow> BusRoute_init route_id st)"

text \<open>
  \<open>route.add_service(service)\<close> and \<open>service.add_trip(trip)\<close> mutate the registered
  object: the route (the service) is named by the key under which \<open>get\<close> found or
  registered it, and is updated in its registry.  An assignment to a key that is present
  keeps the key's place.
\<close>

definition add_service :: "string \<Rightarrow> BusService \<Rightarrow> catalog \<Rightarrow> catalog" where
  "add_service route service st =
     (case all_routes st route of
        None \<Rightarrow> st
      | Some r \<Rightarrow>
          st\<lparr>all_routes := (all_routes st)(route \<mapsto>
               r\<lparr>services := (if s_id service \<in> set (services r) then services r
                                else services r @ [s_id service])\<rparr>)\<rparr>)"

definition add_trip :: "string \<Rightarrow> BusTrip \<Rightarrow> catalog \<Rightarrow> catalog" where
  "add_trip service trip st =
     (case all_services st service of
        None \<Rightarrow> st
      | Some s \<Rightarrow>
          st\<lparr>all_services := (all_services st)(service \<mapsto>
               s\<lparr>trips := (trips s)(t_id trip \<mapsto> trip)\<rparr>)\<rparr>)"

text \<open>
  The body of the loop over the lines of trips.txt, after the first line: a blank line is
  skipped, \<open>assert len(f) == 8\<close> raises AssertionError, \<open>f[0].split(".")[1]\<close> raises
  IndexError when the route field has no dot.
\<close>

definition load_trip_row :: "string \<Rightarrow> catalog \<Rightarrow> (error + unit) \<times> catalog" where
  "load_trip_row line0 st =
     (let line = strip line0 in
      if line = [] then (Inr (), st)
      else
        (let f = split_on CHR '','' line in
         if length f \<noteq> 8 then (Inl AssertionError, st)
         else
           (case split_on CHR ''.'' (f ! 0) of
              _ # route_id # _ \<Rightarrow>
                (let (route, st1) = BusRoute_get route_id st in
                 case BusService_get (f ! 1) st1 of
                   (Inl e, st2) \<Rightarrow> (Inl e, st2)
                 | (Inr service, st2) \<Rightarrow>
                     (let st3 = add_service route_id service st2;
                          (trip, st4) = BusTrip_init (f ! 2) (f ! 3) (f ! 4) (f ! 5) (f ! 6) st3
                      in (Inr (), add_trip (f ! 1) trip st4)))
            | _ \<Rightarrow> (Inl IndexError, st))))"

text \<open>The loop, with the line counter \<open>index\<close> of the source.\<close>

fun load_trip_lines :: "nat \<Rightarrow> string list \<Rightarrow> catalog \<Rightarrow> (error + unit) \<times> catalog" where
  "load_trip_lines index [] st = (Inr (), st)"
| "load_trip_lines index (line # rest) st =
     (let index = index + 1 in
      if index = 1 then load_trip_lines index rest st
      else
        (case load_trip_row line st of
           (Inl e, st') \<Rightarrow> (Inl e, st')
         | (Inr _, st') \<Rightarrow> load_trip_lines index rest st'))"

text \<open>
  \<open>BusRoute.initialize\<close>: the route registry is replaced by an empty one, then the file is
  opened (\<open>None\<close>: it cannot be opened) and read line by line.  Nothing is assigned to
  \<open>BusService._all_services\<close> or \<open>BusTrip._all_trips\<close> here.
\<close>

definition BusRoute_initialize :: "string list option \<Rightarrow> catalog \<Rightarrow> (error + unit) \<times> catalog" where
  "BusRoute_initialize file st =
     (let st0 = st\<lparr>all_routes := Map.empty\<rparr> in
      case file of
        None \<Rightarrow> (Inl OSError, st0)
      | Some lines \<Rightarrow> load_trip_lines 0 lines st0)"

section \<open>The stop directory: BusStop\<close>

text \<open>
  A Python float is finite, infinite or NaN.  A finite float is a real number, and
  comparing two floats is exact, so \<open>float_le\<close> is \<open><=\<close> of the source (the sign of a
  zero, which no comparison sees, is not kept).  What \<open>float(s)\<close> returns for a string
  is rounding, and is a parameter \<open>fl\<close> of the functions that call it: \<open>None\<close> is
  ValueError.
\<close>

datatype pyfloat = Finite real | PosInf | NegInf | NaN

fun float_le :: "pyfloat \<Rightarrow> pyfloat \<Rightarrow> bool" where
  "float_le NaN _ = False"
| "float_le _ NaN = False"
| "float_le (Finite a) (Finite b) = (a \<le> b)"
| "float_le NegInf _ = True"
| "float_le _ PosInf = True"
| "float_le _ _ = False"

record BusStop =
  stop_id :: string
  name :: string
  stop_location :: "pyfloat \<times> pyfloat"

type_synonym stops = "string \<rightharpoonup> BusStop"

definition BusStop_init :: "string \<Rightarrow> string \<Rightarrow> pyfloat \<times> pyfloat \<Rightarrow> stops \<Rightarrow> (error + unit) \<times> stops" where
  "BusStop_init sid nm loc all_stops =
     (let (lat, lon) = loc in
      if \<not> (float_le (Finite (- 90)) lat \<and> float_le lat (Finite 90)) then (Inl AssertionError, all_stops)
      else if \<not> (float_le (Finite (- 180)) lon \<and> float_le lon (Finite 180)) then (Inl AssertionError, all_stops)
      else (Inr (), all_stops(sid \<mapsto> \<lparr>stop_id = sid, name = nm, stop_location = loc\<rparr>)))"

definition lookup :: "string \<Rightarrow> stops \<Rightarrow> BusStop option" where
  "lookup sid all_stops = all_stops sid"

definition load_stop_row :: "(string \<Rightarrow> pyfloat option) \<Rightarrow> string \<Rightarrow> stops \<Rightarrow> (error + unit) \<times> stops" where
  "load_stop_row fl line0 all_stops =
     (let line = strip line0 in
      if line = [] then (Inr (), all_stops)
      else
        (let f = split_on CHR '','' line in
         if length f \<noteq> 5 then (Inl AssertionError, all_stops)
         else
           (case fl (f ! 2) of
              None \<Rightarrow> (Inl ValueError, all_stops)
            | Some lat \<Rightarrow>
           (case fl (f ! 3) of
              None \<Rightarrow> (Inl ValueError, all_stops)
            | Some lon \<Rightarrow> BusStop_init (strip (f ! 0)) (strip (f ! 1)) (lat, lon) all_stops))))"

fun load_stop_lines ::
  "(string \<Rightarrow> pyfloat option) \<Rightarrow> nat \<Rightarrow> string list \<Rightarrow> stops \<Rightarrow> (error + unit) \<times> stops" where
  "load_stop_lines fl index [] all_stops = (Inr (), all_stops)"
| "load_stop_lines fl index (line # rest) all_stops =
     (let index = index + 1 in
      if index = 1 then load_stop_lines fl index rest all_stops
      else
        (case load_stop_row fl line all_stops of
           (Inl e, st') \<Rightarrow> (Inl e, st')
         | (Inr _, st') \<Rightarrow> load_stop_lines fl index rest st'))"

definition BusStop_initialize ::
  "(string \<Rightarrow> pyfloat option) \<Rightarrow> string list option \<Rightarrow> stops \<Rightarrow> (error + unit) \<times> stops" where
  "BusStop_initialize fl file all_stops =
     (case file of
        None \<Rightarrow> (Inl OSError, all_stops)
      | Some lines \<Rightarrow> load_stop_lines fl 0 lines all_stops)"

section \<open>The live fleet state: Bus\<close>

text \<open>
  The feed is an XML document; \<open>root.findall('bus')\<close> is the list of the children of the
  root whose tag is \<open>bus\<close>, and \<open>bus.get(k)\<close> is the attribute \<open>k\<close> or None.
\<close>

datatype element = Element (tag: string) (attrib: "(string \<times> string) list") (children: "element list")

definition get_attr :: "element \<Rightarrow> string \<Rightarrow> string option" where
  "get_attr e k = map_of (attrib e) k"

definition findall :: "string \<Rightarrow> element \<Rightarrow> element list" where
  "findall t xroot = filter (\<lambda>c. tag c = t) (children xroot)"

record Bus =
  route_id :: "string option"
  stop :: "string option"
  next_stop :: "string option"
  location :: "pyfloat \<times> pyfloat"
  heading :: pyfloat
  code :: int

text \<open>
  What the outside world answers during one call of \<open>refresh_state\<close>:
  \<^item> \<open>requests.get\<close> raises (a connection error, a timeout: a RequestException), or returns a
    response with a status code and a body; of the body only the result of
    \<open>ET.fromstring\<close> matters (\<open>None\<close>: ParseError);
  \<^item> \<open>ET.parse\<close> of the local status file raises OSError (no file), ParseError, or returns
    the root;
  \<^item> \<open>datetime.utcnow()\<close> where the age of the state is checked, and where the state is
    stamped, in microseconds.  A difference of less than 60000000 microseconds is
    \<open>delta.total_seconds() < 60\<close>.
\<close>

datatype http_outcome = RequestFailed | Response int "element option"

datatype file_outcome = FileMissing | FileMalformed | FileRoot element

record env =
  http :: http_outcome
  status_file :: file_outcome
  now_check :: int
  now_stamp :: int

text \<open>
  The class attributes \<open>_all_buses\<close> (None, or a \<open>defaultdict(list)\<close> keyed by the route
  attribute, which is None when the record has none) and \<open>_timestamp\<close>.  \<open>io_log\<close> is not
  in the source: it records every HTTP request and every read of the status file, in
  order.  The lock of \<open>refresh_state\<close> is taken and released within one call and has no
  effect on a single caller.
\<close>

datatype io_event = HttpGet | FileRead

record bus_state =
  all_buses :: "(string option \<rightharpoonup> Bus list) option"
  timestamp :: "int option"
  io_log :: "io_event list"

definition py_float :: "(string \<Rightarrow> pyfloat option) \<Rightarrow> string option \<Rightarrow> error + pyfloat" where
  "py_float fl x =
     (case x of
        None \<Rightarrow> Inl TypeError
      | Some s \<Rightarrow> (case fl s of None \<Rightarrow> Inl ValueError | Some v \<Rightarrow> Inr v))"

definition py_int_of :: "string option \<Rightarrow> error + int" where
  "py_int_of x =
     (case x of
        None \<Rightarrow> Inl TypeError
      | Some s \<Rightarrow> (case py_int s of None \<Rightarrow> Inl ValueError | Some v \<Rightarrow> Inr v))"

text \<open>\<open>Bus.__init__\<close>: the two assertions, then the append under the route key.\<close>

definition Bus_init :: "Bus \<Rightarrow> bus_state \<Rightarrow> (error + unit) \<times> bus_state" where
  "Bus_init self st =
     (let (lat, lon) = location self in
      if \<not> (float_le (Finite (- 90)) lat \<and> float_le lat (Finite 90)) then (Inl AssertionError, st)
      else if \<not> (float_le (Finite (- 180)) lon \<and> float_le lon (Finite 180)) then (Inl AssertionError, st)
      else
        (case all_buses st of
           None \<Rightarrow> (Inl TypeError, st)
         | Some m \<Rightarrow>
             (Inr (), st\<lparr>all_buses := Some (m(route_id self \<mapsto>
                 (case m (route_id self) of None \<Rightarrow> [] | Some xs \<Rightarrow> xs) @ [self]))\<rparr>)))"

definition fetch_state :: "env \<Rightarrow> bus_state \<Rightarrow> (error + element option) \<times> bus_state" where
  "fetch_state e st =
     (let st' = st\<lparr>io_log := io_log st @ [HttpGet]\<rparr> in
      case http e of
        RequestFailed \<Rightarrow> (Inl RequestException, st')
      | Response status_code body \<Rightarrow>
          if status_code = 200
          then (case body of None \<Rightarrow> (Inl ParseError, st') | Some xroot \<Rightarrow> (Inr (Some xroot), st'))
          else (Inr None, st'))"

definition read_state :: "env \<Rightarrow> bus_state \<Rightarrow> (error + element) \<times> bus_state" where
  "read_state e st =
     (let st' = st\<lparr>io_log := io_log st @ [FileRead]\<rparr> in
      case status_file e of
        FileMissing \<Rightarrow> (Inl OSError, st')
      | FileMalformed \<Rightarrow> (Inl ParseError, st')
      | FileRoot xroot \<Rightarrow> (Inr xroot, st'))"

text \<open>The body of the loop of \<open>_load_state\<close> over the bus records.\<close>

definition load_bus :: "(string \<Rightarrow> pyfloat option) \<Rightarrow> element \<Rightarrow> bus_state \<Rightarrow> (error + unit) \<times> bus_state" where
  "load_bus fl bus st =
     (case py_float fl (get_attr bus ''lat'') of
        Inl e \<Rightarrow> (Inl e, st)
      | Inr lat \<Rightarrow>
     (case py_float fl (get_attr bus ''lon'') of
        Inl e \<Rightarrow> (Inl e, st)
      | Inr lon \<Rightarrow>
     (case py_float fl (get_attr bus ''head'') of
        Inl e \<Rightarrow> (Inl e, st)
      | Inr head \<Rightarrow>
     (case py_int_of (get_attr bus ''code'') of
        Inl e \<Rightarrow> (Inl e, st)
      | Inr cd \<Rightarrow>
          Bus_init \<lparr>route_id = get_attr bus ''route'', stop = get_attr bus ''stop'',
                    next_stop = get_attr bus ''next'', location = (lat, lon),
                    heading = head, code = cd\<rparr> st))))"

fun load_buses :: "(string \<Rightarrow> pyfloat option) \<Rightarrow> element list \<Rightarrow> bus_state \<Rightarrow> (error + unit) \<times> bus_state" where
  "load_buses fl [] st = (Inr (), st)"
| "load_buses fl (bus # rest) st =
     (case load_bus fl bus st of
        (Inl e, st') \<Rightarrow> (Inl e, st')
      | (Inr _, st') \<Rightarrow> load_buses fl rest st')"

text \<open>
  \<open>_load_state\<close>: the previous state is cleared first; the status file is read only when
  \<open>_fetch_state\<close> returns None; the timestamp is set after the last record.
\<close>

definition load_state :: "(string \<Rightarrow> pyfloat option) \<Rightarrow> env \<Rightarrow> bus_state \<Rightarrow> (error + unit) \<times> bus_state" where
  "load_state fl e st =
     (let st1 = st\<lparr>all_buses := Some Map.empty\<rparr> in
      case fetch_state e st1 of
        (Inl err, st2) \<Rightarrow> (Inl err, st2)
      | (Inr fetched, st2) \<Rightarrow>
          (case (case fetched of
                   None \<Rightarrow> read_state e st2
                 | Some xroot \<Rightarrow> (Inr xroot, st2)) of
             (Inl err, st3) \<Rightarrow> (Inl err, st3)
           | (Inr xroot, st3) \<Rightarrow>
               (case load_buses fl (findall ''bus'' xroot) st3 of
                  (Inl err, st4) \<Rightarrow> (Inl err, st4)
                | (Inr _, st4) \<Rightarrow> (Inr (), st4\<lparr>timestamp := Some (now_stamp e)\<rparr>))))"

definition refresh_state :: "(string \<Rightarrow> pyfloat option) \<Rightarrow> env \<Rightarrow> bus_state \<Rightarrow> (error + unit) \<times> bus_state" where
  "refresh_state fl e st =
     (case timestamp st of
        Some t \<Rightarrow> if now_check e - t < 60000000 then (Inr (), st) else load_state fl e st
      | None \<Rightarrow> load_state fl e st)"

text \<open>\<open>Bus.all_buses()\<close> returns the stored dictionary itself.\<close>

definition Bus_all_buses ::
  "(string \<Rightarrow> pyfloat option) \<Rightarrow> env \<Rightarrow> bus_state \<Rightarrow> (error + (string option \<rightharpoonup> Bus list) option) \<times> bus_state" where
  "Bus_all_buses fl e st =
     (case refresh_state fl e st of
        (Inl err, st') \<Rightarrow> (Inl err, st')
      | (Inr _, st') \<Rightarrow> (Inr (all_buses st'), st'))"

text \<open>
  \<open>Bus.buses_on_route(route_id)\<close>: indexing a \<open>defaultdict(list)\<close> at a missing key stores an
  empty list under the key and returns it; indexing None raises TypeError.
\<close>

definition buses_on_route ::
  "(string \<Rightarrow> pyfloat option) \<Rightarrow> env \<Rightarrow> string option \<Rightarrow> bus_state \<Rightarrow> (error + Bus list) \<times> bus_state" where
  "buses_on_route fl e r st =
     (case refresh_state fl e st of
        (Inl err, st') \<Rightarrow> (Inl err, st')
      | (Inr _, st') \<Rightarrow>
          (case all_buses st' of
             None \<Rightarrow> (Inl TypeError, st')
           | Some m \<Rightarrow>
               (case m r of
                  Some xs \<Rightarrow> (Inr xs, st')
                | None \<Rightarrow> (Inr [], st'\<lparr>all_buses := Some (m(r \<mapsto> []))\<rparr>))))"

section \<open>Predicates of the specification and sample inputs\<close>

text \<open>
  The sources a refresh depends on.  The remote feed is unavailable when the request
  raises, when the status is not 200, or when the body does not parse; the local file is
  unavailable when it is missing or does not parse.  A refresh is due when there is no
  timestamp or the timestamp is at least 60 seconds old.
\<close>

definition remote_unavailable :: "env \<Rightarrow> bool" where
  "remote_unavailable e =
     (case http e of RequestFailed \<Rightarrow> True | Response c body \<Rightarrow> c \<noteq> 200 \<or> body = None)"

definition local_unavailable :: "env \<Rightarrow> bool" where
  "local_unavailable e =
     (case status_file e of FileMissing \<Rightarrow> True | FileMalformed \<Rightarrow> True | FileRoot _ \<Rightarrow> False)"

definition refresh_due :: "env \<Rightarrow> bus_state \<Rightarrow> bool" where
  "refresh_due e st =
     (case timestamp st of None \<Rightarrow> True | Some t \<Rightarrow> \<not> now_check e - t < 60000000)"

text \<open>The sightings stored under a route key: None when the key is not in the snapshot.\<close>

definition sightings :: "bus_state \<Rightarrow> string option \<Rightarrow> Bus list option" where
  "sightings st r = (case all_buses st of None \<Rightarrow> None | Some m \<Rightarrow> m r)"

text \<open>
  A line of a static resource that is read as a row (not blank after \<open>strip\<close>) and does
  not have \<open>n\<close> comma-separated fields.
\<close>

definition wrong_field_count :: "nat \<Rightarrow> string \<Rightarrow> bool" where
  "wrong_field_count n line =
     (strip line \<noteq> [] \<and> length (split_on CHR '','' (strip line)) \<noteq> n)"

text \<open>
  \<open>decodes_to sid s\<close>: the service \<open>s\<close> carries the id \<open>sid\<close> and the date and weekday list
  that \<open>BusService.__init__\<close> computes from \<open>sid\<close>; its trips are free.  \<open>registry_ok\<close>:
  every registered service is registered under its own code and carries what that code
  decodes to.
\<close>

definition decodes_to :: "string \<Rightarrow> BusService \<Rightarrow> bool" where
  "decodes_to sid s =
     (s_id s = sid
      \<and> weekdays s = map (\<lambda>c. c \<noteq> CHR ''-'') (take 7 (drop 9 sid))
      \<and> (case py_int (take 4 sid) of
            None \<Rightarrow> False
          | Some y \<Rightarrow>
         (case py_int (take 2 (drop 4 sid)) of
            None \<Rightarrow> False
          | Some m \<Rightarrow>
         (case py_int (take 2 (drop 6 sid)) of
            None \<Rightarrow> False
          | Some d \<Rightarrow> py_date y m d = Inr (valid_from s)))))"

definition registry_ok :: "catalog \<Rightarrow> bool" where
  "registry_ok st = (\<forall>k s. all_services st k = Some s \<longrightarrow> decodes_to k s)"

text \<open>Sample inputs: a feed with one bus on route 1, a process that has loaded nothing.\<close>

definition sample_float :: "string \<Rightarrow> pyfloat option" where
  "sample_float s =
     (if s = ''64.1'' then Some (Finite 64.1)
      else if s = ''-21.9'' then Some (Finite (- 21.9))
      else if s = ''90.0'' then Some (Finite 90)
      else None)"

definition sample_feed :: element where
  "sample_feed =
     Element ''buses'' []
       [Element ''bus''
          [(''lat'', ''64.1''), (''lon'', ''-21.9''), (''head'', ''90.0''), (''route'', ''1''),
           (''stop'', ''a''), (''next'', ''b''), (''code'', ''6'')] []]"

definition sample_bus :: Bus where
  "sample_bus =
     \<lparr>route_id = Some ''1'', stop = Some ''a'', next_stop = Some ''b'',
      location = (Finite 64.1, Finite (- 21.9)), heading = Finite 90, code = 6\<rparr>"

definition initial_state :: bus_state where
  "initial_state = \<lparr>all_buses = None, timestamp = None, io_log = []\<rparr>"

definition loaded_state :: bus_state where
  "loaded_state =
     \<lparr>all_buses = Some [Some ''1'' \<mapsto> [sample_bus]], timestamp = Some 0, io_log = [HttpGet]\<rparr>"

definition feed_up :: "int \<Rightarrow> env" where
  "feed_up now =
     \<lparr>http = Response 200 (Some sample_feed), status_file = FileMissing,
      now_check = now, now_stamp = now\<rparr>"

definition all_down :: "int \<Rightarrow> env" where
  "all_down now =
     \<lparr>http = Response 503 None, status_file = FileMissing, now_check = now, now_stamp = now\<rparr>"

definition network_down :: "int \<Rightarrow> env" where
  "network_down now =
     \<lparr>http = RequestFailed, status_file = FileRoot sample_feed, now_check = now, now_stamp = now\<rparr>"

definition body_malformed :: "int \<Rightarrow> env" where
  "body_malformed now =
     \<lparr>http = Response 200 None, status_file = FileRoot sample_feed,
      now_check = now, now_stamp = now\<rparr>"

definition bad_status :: "int \<Rightarrow> env" where
  "bad_status now =
     \<lparr>http = Response 503 None, status_file = FileRoot sample_feed,
      now_check = now, now_stamp = now\<rparr>"

definition trips_header :: string where
  "trips_header = ''route_id,service_id,trip_id''"

definition trips_a :: "string list" where
  "trips_a = [trips_header, ''ST.1,20240101-MTWTFSS,t1,A,1,0,b1,s1'', ''ST.1,20240102-MTWTF--,t3,A,1,1,b3,s3'']"

definition trips_b :: "string list" where
  "trips_b = [trips_header, ''ST.2,20240101-MTWTFSS,t2,B,2,0,b2,s2'']"

definition trips_short_row :: "string list" where
  "trips_short_row = [trips_header, ''ST.1,20240101-MTWTFSS,t1,A,1,0,b1,s1'', ''ST.2,20240101-MTWTFSS,t2,B,2,0,b2'']"

definition stops_short_row :: "string list" where
  "stops_short_row = [''stop_id,stop_name'', ''a,Hlemmur,64.1,-21.9,0'', ''b,Mjodd,64.1,-21.9'']"

text \<open>
  \<open>keeps st st'\<close>: every service id and every trip id registered in \<open>st\<close> is still
  registered in \<open>st'\<close>.
\<close>

definition keeps :: "catalog \<Rightarrow> catalog \<Rightarrow> bool" where
  "keeps st st' =
     (dom (all_services st) \<subseteq> dom (all_services st') \<and> dom (all_trips st) \<subseteq> dom (all_trips st'))"

text \<open>
  The catalog after loading \<open>trips_a\<close> into a new process, after then loading \<open>trips_b\<close>,
  and after loading \<open>trips_b\<close> alone.
\<close>

definition catalog_a :: catalog where
  "catalog_a = snd (BusRoute_initialize (Some trips_a) empty_catalog)"

definition catalog_ab :: catalog where
  "catalog_ab = snd (BusRoute_initialize (Some trips_b) catalog_a)"

definition catalog_b :: catalog where
  "catalog_b = snd (BusRoute_initialize (Some trips_b) empty_catalog)"

section \<open>Evaluation rules\<close>

lemmas sample_defs = sample_float_def sample_feed_def sample_bus_def initial_state_def loaded_state_def
  feed_up_def all_down_def network_down_def body_malformed_def bad_status_def
lemmas bus_defs = refresh_state_def load_state_def fetch_state_def read_state_def load_bus_def
  Bus_init_def py_float_def py_int_of_def get_attr_def findall_def Let_def
lemmas int_defs = py_int_def strip_by_def int_space_def digits_val_def is_digit_def digit_val_def


lemmas catalog_defs = BusRoute_initialize_def load_trip_row_def BusRoute_get_def BusRoute_init_def
  BusService_get_def BusService_init_def BusTrip_init_def add_service_def add_trip_def
  strip_def isspace_def empty_catalog_def
lemmas stop_defs = BusStop_initialize_def load_stop_row_def BusStop_init_def strip_def isspace_def

lemma catalog_a_eval:
  "catalog_a =
     \<lparr>all_trips = [''t1'' \<mapsto> \<lparr>t_id = ''t1'', headsign = ''A'', short_name = ''1'', direction = ''0'', block = ''b1''\<rparr>,
                   ''t3'' \<mapsto> \<lparr>t_id = ''t3'', headsign = ''A'', short_name = ''1'', direction = ''1'', block = ''b3''\<rparr>],
      all_services =
        [''20240101-MTWTFSS'' \<mapsto>
           \<lparr>s_id = ''20240101-MTWTFSS'',
            trips = [''t1'' \<mapsto> \<lparr>t_id = ''t1'', headsign = ''A'', short_name = ''1'', direction = ''0'', block = ''b1''\<rparr>],
            valid_from = \<lparr>year = 2024, month = 1, day = 1\<rparr>,
            weekdays = [True, True, True, True, True, True, True]\<rparr>,
         ''20240102-MTWTF--'' \<mapsto>
           \<lparr>s_id = ''20240102-MTWTF--'',
            trips = [''t3'' \<mapsto> \<lparr>t_id = ''t3'', headsign = ''A'', short_name = ''1'', direction = ''1'', block = ''b3''\<rparr>],
            valid_from = \<lparr>year = 2024, month = 1, day = 2\<rparr>,
            weekdays = [True, True, True, True, True, False, False]\<rparr>],
      all_routes = [''1'' \<mapsto> \<lparr>r_id = ''1'', services = [''20240101-MTWTFSS'', ''20240102-MTWTF--'']\<rparr>]\<rparr>"
  by (simp add: catalog_a_def trips_a_def trips_header_def catalog_defs py_int_def strip_by_def
      int_space_def digits_val_def is_digit_def digit_val_def py_date_def days_in_month_def Let_def)

section \<open>Activation of a service on a date\<close>

lemma weekday_lt_7: "weekday d < 7"
  by (simp add: weekday_def)

lemma is_active_on_date_total:
  "length (weekdays s) = 7 \<Longrightarrow>
     is_active_on_date s d = Inr (date_le (valid_from s) d \<and> weekdays s ! weekday d)"
  by (simp add: is_active_on_date_def Let_def weekday_lt_7)



section \<open>Decoding a service code\<close>

lemma is_digit_props:
  "is_digit c \<Longrightarrow> \<not> int_space c \<and> c \<noteq> CHR ''-'' \<and> c \<noteq> CHR ''+'' \<and> c \<noteq> CHR ''_''"
  by (auto simp: is_digit_def int_space_def Let_def)

lemma strip_by_id:
  assumes "s \<noteq> []" "\<not> p (hd s)" "\<not> p (last s)"
  shows "strip_by p s = s"
proof -
  have 1: "dropWhile p s = s" using assms by (cases s) auto
  obtain ys y where ys: "s = ys @ [y]" using assms(1) by (cases s rule: rev_exhaust) auto
  have 2: "dropWhile p (rev s) = rev s" using assms(3) by (simp add: ys)
  show ?thesis by (simp add: strip_by_def 1 2)
qed

lemma parse_digits_all:
  "list_all is_digit cs \<Longrightarrow>
     parse_digits cs acc = Some (foldl (\<lambda>a c. 10 * a + digit_val c) acc cs)"
  by (induction cs arbitrary: acc) auto

lemma py_int_digits:
  assumes "s \<noteq> []" "list_all is_digit s"
  shows "py_int s = Some (dec s)"
proof -
  obtain c cs where s: "s = c # cs" using assms(1) by (cases s) auto
  have dc: "is_digit c" and dl: "is_digit (last s)" using assms s by (auto simp: list_all_iff)
  have "strip_by int_space s = s"
    using assms(1) dc dl is_digit_props s by (intro strip_by_id) auto
  then show ?thesis using s dc assms(2) is_digit_props[OF dc]
    by (simp add: py_int_def digits_val_def dec_def parse_digits_all)
qed

lemma parse_digits_chars:
  "parse_digits cs acc = Some v \<Longrightarrow> c \<in> set cs \<Longrightarrow> is_digit c \<or> c = CHR ''_''"
  by (induction cs acc rule: parse_digits.induct) (auto split: if_splits list.splits)

lemma digits_val_chars:
  "digits_val t = Some v \<Longrightarrow> c \<in> set t \<Longrightarrow> is_digit c \<or> c = CHR ''_''"
  by (auto simp: digits_val_def split: list.splits if_splits dest: parse_digits_chars)

lemma in_set_dropWhile: "c \<in> set s \<Longrightarrow> p c \<or> c \<in> set (dropWhile p s)"
  by (induction s) auto

lemma in_set_strip_by: "c \<in> set s \<Longrightarrow> p c \<or> c \<in> set (strip_by p s)"
proof -
  assume "c \<in> set s"
  then have "p c \<or> c \<in> set (rev (dropWhile p s))" using in_set_dropWhile[of c s p] by simp
  then show ?thesis using in_set_dropWhile[of c "rev (dropWhile p s)" p]
    by (auto simp: strip_by_def)
qed

lemma py_int_chars:
  assumes "py_int s = Some v" "c \<in> set s"
  shows "is_digit c \<or> int_space c \<or> c = CHR ''-'' \<or> c = CHR ''+'' \<or> c = CHR ''_''"
proof -
  from in_set_strip_by[OF assms(2), of int_space]
  consider "int_space c" | "c \<in> set (strip_by int_space s)" by blast
  then show ?thesis
  proof cases
    case 1 then show ?thesis by simp
  next
    case 2
    then show ?thesis using assms(1)
      by (auto simp: py_int_def split: list.splits if_splits dest: digits_val_chars)
  qed
qed

lemma date_fields_digits:
  assumes "16 \<le> length sid" "list_all is_digit (take 8 sid)"
  shows "py_int (take 4 sid) = Some (dec (take 4 sid))"
    and "py_int (take 2 (drop 4 sid)) = Some (dec (take 2 (drop 4 sid)))"
    and "py_int (take 2 (drop 6 sid)) = Some (dec (take 2 (drop 6 sid)))"
proof -
  have d: "\<And>c. c \<in> set (take 8 sid) \<Longrightarrow> is_digit c" using assms(2) by (simp add: list_all_iff)
  have s1: "set (take 4 sid) \<subseteq> set (take 8 sid)" by (rule set_take_subset_set_take) simp
  have e2: "take 2 (drop 4 sid) = drop 4 (take 6 sid)" by (simp add: drop_take)
  have e3: "take 2 (drop 6 sid) = drop 6 (take 8 sid)" by (simp add: drop_take)
  have s2: "set (take 2 (drop 4 sid)) \<subseteq> set (take 8 sid)"
    using set_drop_subset[of 4 "take 6 sid"] set_take_subset_set_take[of 6 8 sid] by (simp add: e2)
  have s3: "set (take 2 (drop 6 sid)) \<subseteq> set (take 8 sid)"
    using set_drop_subset[of 6 "take 8 sid"] by (simp add: e3)
  have n1: "take 4 sid \<noteq> []" and n2: "take 2 (drop 4 sid) \<noteq> []" and n3: "take 2 (drop 6 sid) \<noteq> []"
    using assms(1) by auto
  show "py_int (take 4 sid) = Some (dec (take 4 sid))"
    using n1 s1 d by (intro py_int_digits) (auto simp: list_all_iff)
  show "py_int (take 2 (drop 4 sid)) = Some (dec (take 2 (drop 4 sid)))"
    using n2 s2 d by (intro py_int_digits) (auto simp: list_all_iff)
  show "py_int (take 2 (drop 6 sid)) = Some (dec (take 2 (drop 6 sid)))"
    using n3 s3 d by (intro py_int_digits) (auto simp: list_all_iff)
qed

lemma py_date_fields: "py_date y m d = Inr vf \<Longrightarrow> year vf = y \<and> month vf = m \<and> day vf = d"
  by (auto simp: py_date_def split: if_splits)

lemma registry_ok_empty: "registry_ok empty_catalog"
  by (simp add: registry_ok_def empty_catalog_def)

lemma py_date_error: "py_date y m d = Inl e \<Longrightarrow> e = ValueError"
  by (auto simp: py_date_def split: if_splits)

lemma BusService_init_fails:
  assumes "py_int (take 4 sid) = None \<or> py_int (take 2 (drop 4 sid)) = None
      \<or> py_int (take 2 (drop 6 sid)) = None
      \<or> (\<exists>y m d e. py_int (take 4 sid) = Some y \<and> py_int (take 2 (drop 4 sid)) = Some m
            \<and> py_int (take 2 (drop 6 sid)) = Some d \<and> py_date y m d = Inl e)"
  shows "BusService_init sid st = (Inl ValueError, st)"
  using assms
  by (auto simp: BusService_init_def split: option.splits sum.splits dest: py_date_error)

lemma BusService_init_decodes:
  assumes "py_int (take 4 sid) = Some y" "py_int (take 2 (drop 4 sid)) = Some m"
    "py_int (take 2 (drop 6 sid)) = Some d" "py_date y m d = Inr vf"
  shows "BusService_init sid st =
     (Inr \<lparr>s_id = sid, trips = Map.empty, valid_from = vf,
           weekdays = map (\<lambda>c. c \<noteq> CHR ''-'') (take 7 (drop 9 sid))\<rparr>,
      st\<lparr>all_services := (all_services st)(sid \<mapsto>
           \<lparr>s_id = sid, trips = Map.empty, valid_from = vf,
            weekdays = map (\<lambda>c. c \<noteq> CHR ''-'') (take 7 (drop 9 sid))\<rparr>)\<rparr>)"
  using assms by (simp add: BusService_init_def Let_def)

lemma decodes_toD:
  assumes "decodes_to sid s"
  shows "\<exists>y m d. py_int (take 4 sid) = Some y \<and> py_int (take 2 (drop 4 sid)) = Some m
      \<and> py_int (take 2 (drop 6 sid)) = Some d \<and> py_date y m d = Inr (valid_from s)"
    and "s_id s = sid"
    and "weekdays s = map (\<lambda>c. c \<noteq> CHR ''-'') (take 7 (drop 9 sid))"
  using assms by (auto simp: decodes_to_def split: option.splits)

lemma decodes_to_trips: "decodes_to sid (s\<lparr>trips := t\<rparr>) = decodes_to sid s"
  by (simp add: decodes_to_def split: option.splits)

lemma registered_decodes:
  assumes "registry_ok st" "all_services st sid = Some s"
  shows "\<exists>y m d. py_int (take 4 sid) = Some y \<and> py_int (take 2 (drop 4 sid)) = Some m
      \<and> py_int (take 2 (drop 6 sid)) = Some d \<and> py_date y m d = Inr (valid_from s)"
    and "s_id s = sid"
    and "weekdays s = map (\<lambda>c. c \<noteq> CHR ''-'') (take 7 (drop 9 sid))"
proof -
  have d: "decodes_to sid s" using assms by (simp add: registry_ok_def)
  show "\<exists>y m d. py_int (take 4 sid) = Some y \<and> py_int (take 2 (drop 4 sid)) = Some m
      \<and> py_int (take 2 (drop 6 sid)) = Some d \<and> py_date y m d = Inr (valid_from s)"
    by (rule decodes_toD(1)[OF d])
  show "s_id s = sid" by (rule decodes_toD(2)[OF d])
  show "weekdays s = map (\<lambda>c. c \<noteq> CHR ''-'') (take 7 (drop 9 sid))"
    by (rule decodes_toD(3)[OF d])
qed

lemma BusService_get_fails:
  assumes ok: "registry_ok st"
    and bad: "py_int (take 4 sid) = None \<or> py_int (take 2 (drop 4 sid)) = None
      \<or> py_int (take 2 (drop 6 sid)) = None
      \<or> (\<exists>y m d e. py_int (take 4 sid) = Some y \<and> py_int (take 2 (drop 4 sid)) = Some m
            \<and> py_int (take 2 (drop 6 sid)) = Some d \<and> py_date y m d = Inl e)"
  shows "BusService_get sid st = (Inl ValueError, st)"
proof (cases "all_services st sid")
  case None
  then show ?thesis using BusService_init_fails[OF bad] by (simp add: BusService_get_def)
next
  case (Some s)
  from registered_decodes(1)[OF ok Some] bad have False by auto
  then show ?thesis ..
qed

lemma BusService_get_decodes:
  assumes ok: "registry_ok st"
    and f: "py_int (take 4 sid) = Some y" "py_int (take 2 (drop 4 sid)) = Some m"
      "py_int (take 2 (drop 6 sid)) = Some d" "py_date y m d = Inr vf"
  shows "\<exists>svc st'. BusService_get sid st = (Inr svc, st') \<and> s_id svc = sid
      \<and> valid_from svc = vf
      \<and> weekdays svc = map (\<lambda>c. c \<noteq> CHR ''-'') (take 7 (drop 9 sid))
      \<and> all_services st' sid = Some svc \<and> registry_ok st'"
proof (cases "all_services st sid")
  case None
  let ?svc = "\<lparr>s_id = sid, trips = Map.empty, valid_from = vf,
           weekdays = map (\<lambda>c. c \<noteq> CHR ''-'') (take 7 (drop 9 sid))\<rparr>"
  let ?st' = "st\<lparr>all_services := (all_services st)(sid \<mapsto> ?svc)\<rparr>"
  have g: "BusService_get sid st = (Inr ?svc, ?st')"
    using None BusService_init_decodes[OF f] by (simp add: BusService_get_def)
  have d: "decodes_to sid ?svc" using f by (simp add: decodes_to_def)
  have "registry_ok ?st'" using ok d by (auto simp: registry_ok_def)
  then show ?thesis using g by simp
next
  case (Some s)
  have g: "BusService_get sid st = (Inr s, st)" using Some by (simp add: BusService_get_def)
  from registered_decodes(1)[OF ok Some] f have "valid_from s = vf" by auto
  then show ?thesis using g Some ok registered_decodes(2,3)[OF ok Some] by simp
qed

lemma BusService_get_registry_ok: "registry_ok st \<Longrightarrow> registry_ok (snd (BusService_get k st))"
proof (cases "all_services st k")
  case None
  assume ok: "registry_ok st"
  show ?thesis
  proof (cases "fst (BusService_init k st)")
    case (Inl e)
    then have "snd (BusService_init k st) = st"
      by (auto simp: BusService_init_def Let_def split: option.splits sum.splits)
    then show ?thesis using ok None by (simp add: BusService_get_def)
  next
    case (Inr svc)
    then obtain y m d vf where f: "py_int (take 4 k) = Some y" "py_int (take 2 (drop 4 k)) = Some m"
      "py_int (take 2 (drop 6 k)) = Some d" "py_date y m d = Inr vf"
      by (auto simp: BusService_init_def Let_def split: option.splits sum.splits)
    from BusService_get_decodes[OF ok f] show ?thesis by auto
  qed
next
  case (Some s)
  assume "registry_ok st"
  then show ?thesis using Some by (simp add: BusService_get_def)
qed

lemma add_trip_registry_ok: "registry_ok st \<Longrightarrow> registry_ok (add_trip k t st)"
  by (auto simp: registry_ok_def add_trip_def decodes_to_trips split: option.splits)

lemma add_service_registry_ok: "registry_ok st \<Longrightarrow> registry_ok (add_service r s st)"
  by (auto simp: registry_ok_def add_service_def split: option.splits)

lemma BusRoute_get_registry_ok: "registry_ok st \<Longrightarrow> registry_ok (snd (BusRoute_get k st))"
  by (auto simp: registry_ok_def BusRoute_get_def BusRoute_init_def Let_def split: option.splits)

lemma BusTrip_init_registry_ok:
  "registry_ok st \<Longrightarrow> registry_ok (snd (BusTrip_init a b c d e st))"
  by (auto simp: registry_ok_def BusTrip_init_def Let_def)

lemma load_trip_row_registry_ok:
  assumes ok: "registry_ok st"
  shows "registry_ok (snd (load_trip_row l st))"
proof -
  let ?f = "split_on CHR '','' (strip l)"
  show ?thesis
  proof (cases "strip l = [] \<or> length ?f \<noteq> 8")
    case True
    then show ?thesis using ok by (auto simp: load_trip_row_def Let_def)
  next
    case False
    show ?thesis
    proof (cases "split_on CHR ''.'' (?f ! 0)")
      case Nil
      then show ?thesis using False ok by (simp add: load_trip_row_def Let_def)
    next
      case (Cons a as)
      note outer = Cons
      show ?thesis
      proof (cases as)
        case Nil
        then show ?thesis using False outer ok by (simp add: load_trip_row_def Let_def)
      next
        case (Cons rid rest)
        obtain route st1 where g: "BusRoute_get rid st = (route, st1)" by force
        obtain r st2 where h: "BusService_get (?f ! 1) st1 = (r, st2)" by force
        have k1: "registry_ok st1" using BusRoute_get_registry_ok[OF ok, of rid] g by simp
        have k2: "registry_ok st2" using BusService_get_registry_ok[OF k1, of "?f ! 1"] h by simp
        show ?thesis
        proof (cases r)
          case (Inl e)
          then have "load_trip_row l st = (Inl e, st2)"
            using False outer Cons g h by (simp add: load_trip_row_def Let_def)
          then show ?thesis using k2 by simp
        next
          case (Inr service)
          let ?st3 = "add_service rid service st2"
          obtain trip st4 where
            t: "BusTrip_init (?f ! 2) (?f ! 3) (?f ! 4) (?f ! 5) (?f ! 6) ?st3 = (trip, st4)"
            by force
          have k3: "registry_ok ?st3" using k2 by (rule add_service_registry_ok)
          have k4: "registry_ok st4"
            using BusTrip_init_registry_ok[OF k3, of "?f ! 2" "?f ! 3" "?f ! 4" "?f ! 5" "?f ! 6"] t
            by simp
          have "load_trip_row l st = (Inr (), add_trip (?f ! 1) trip st4)"
            using False outer Cons g h Inr t by (simp add: load_trip_row_def Let_def)
          then show ?thesis using add_trip_registry_ok[OF k4] by simp
        qed
      qed
    qed
  qed
qed

lemma load_trip_lines_registry_ok:
  "registry_ok st \<Longrightarrow> registry_ok (snd (load_trip_lines i ls st))"
proof (induction ls arbitrary: i st)
  case Nil
  then show ?case by simp
next
  case (Cons l ls)
  show ?case
  proof (cases "i = 0")
    case True
    then show ?thesis using Cons.IH[OF Cons.prems, of 1] by simp
  next
    case False
    obtain r s where p: "load_trip_row l st = (r, s)" by force
    have k: "registry_ok s" using load_trip_row_registry_ok[OF Cons.prems, of l] p by simp
    show ?thesis
    proof (cases r)
      case (Inl e)
      then show ?thesis using False p k by (simp add: Let_def)
    next
      case (Inr u)
      then show ?thesis using False p Cons.IH[OF k, of "i + 1"] by (simp add: Let_def)
    qed
  qed
qed

lemma BusRoute_initialize_registry_ok:
  assumes "registry_ok st"
  shows "registry_ok (snd (BusRoute_initialize src st))"
proof (cases src)
  case None
  then show ?thesis using assms by (simp add: BusRoute_initialize_def registry_ok_def)
next
  case (Some ls)
  have "registry_ok (st\<lparr>all_routes := Map.empty\<rparr>)" using assms by (simp add: registry_ok_def)
  from load_trip_lines_registry_ok[OF this, of 0 ls]
  show ?thesis using Some by (simp add: BusRoute_initialize_def)
qed

lemma registry_ok_catalog_a: "registry_ok catalog_a"
  unfolding catalog_a_def by (rule BusRoute_initialize_registry_ok[OF registry_ok_empty])

lemma py_int_examples:
  "py_int ''2024'' = Some 2024 \<and> py_int ''+202'' = Some 202 \<and> py_int '' 202'' = Some 202
   \<and> py_int ''2_24'' = Some 224 \<and> py_int ''-202'' = Some (- 202) \<and> py_int ''0001'' = Some 1
   \<and> py_int '''' = None \<and> py_int ''--'' = None \<and> py_int ''1_'' = None \<and> py_int ''_1'' = None
   \<and> py_int ''1__2'' = None \<and> py_int ''20-4'' = None \<and> py_int ''2 24'' = None
   \<and> py_int ''+ 20'' = None \<and> py_int ''AB'' = None \<and> py_int ''2.5'' = None"
  by (simp add: int_defs)

text \<open>
  C6 (as the code has it): in a catalog where every registered service carries what its
  own code decodes to (the empty catalog is one, and \<open>BusService.get\<close> and
  \<open>BusRoute.initialize\<close> keep it so), \<open>BusService.get\<close> fails with ValueError when
  \<open>int()\<close> rejects one of the three date fields, or when the three integers are not a
  date, and in every other case returns the service of that code, with the decoded
  \<open>valid_from\<close> and weekday list.  For eight leading digits that form a valid date, one
  separator character and seven mask characters, these are that date and a list of seven
  booleans, true where the mask character is not a hyphen.  \<open>int()\<close> accepts more than
  digits: whitespace around the number, one sign, single underscores between digits
  (\<open>py_int_examples\<close>); a field with any other character is rejected (\<open>py_int_chars\<close>).
  The length of the code is not checked.
\<close>

theorem BusService_get_decode:
  "registry_ok st \<longrightarrow>
     (py_int (take 4 sid) = None \<or> py_int (take 2 (drop 4 sid)) = None
        \<or> py_int (take 2 (drop 6 sid)) = None
      \<longrightarrow> BusService_get sid st = (Inl ValueError, st))
   \<and> (py_int (take 4 sid) = Some y \<and> py_int (take 2 (drop 4 sid)) = Some m
        \<and> py_int (take 2 (drop 6 sid)) = Some d \<and> py_date y m d = Inl e
      \<longrightarrow> BusService_get sid st = (Inl ValueError, st))
   \<and> (py_int (take 4 sid) = Some y \<and> py_int (take 2 (drop 4 sid)) = Some m
        \<and> py_int (take 2 (drop 6 sid)) = Some d \<and> py_date y m d = Inr vf
      \<longrightarrow> (\<exists>svc st'. BusService_get sid st = (Inr svc, st') \<and> s_id svc = sid
             \<and> valid_from svc = vf
             \<and> weekdays svc = map (\<lambda>c. c \<noteq> CHR ''-'') (take 7 (drop 9 sid))
             \<and> all_services st' sid = Some svc \<and> registry_ok st'))
   \<and> (16 \<le> length sid \<and> list_all is_digit (take 8 sid)
        \<and> py_date (dec (take 4 sid)) (dec (take 2 (drop 4 sid))) (dec (take 2 (drop 6 sid))) = Inr vf
      \<longrightarrow> (\<exists>svc st'. BusService_get sid st = (Inr svc, st') \<and> s_id svc = sid
             \<and> valid_from svc = vf
             \<and> year vf = dec (take 4 sid)
             \<and> month vf = dec (take 2 (drop 4 sid))
             \<and> day vf = dec (take 2 (drop 6 sid))
             \<and> length (weekdays svc) = 7
             \<and> (\<forall>i<7. weekdays svc ! i = (sid ! (9 + i) \<noteq> CHR ''-''))
             \<and> all_services st' sid = Some svc \<and> registry_ok st'))
   \<and> (all_services st sid = Some s
      \<longrightarrow> BusService_get sid st = (Inr s, st) \<and> decodes_to sid s)
   \<and> (all_services st sid = None
        \<and> py_int (take 4 sid) = Some y \<and> py_int (take 2 (drop 4 sid)) = Some m
        \<and> py_int (take 2 (drop 6 sid)) = Some d \<and> py_date y m d = Inr vf
      \<longrightarrow> BusService_get sid st =
            (Inr \<lparr>s_id = sid, trips = Map.empty, valid_from = vf,
                  weekdays = map (\<lambda>c. c \<noteq> CHR ''-'') (take 7 (drop 9 sid))\<rparr>,
             st\<lparr>all_services := (all_services st)(sid \<mapsto>
                  \<lparr>s_id = sid, trips = Map.empty, valid_from = vf,
                   weekdays = map (\<lambda>c. c \<noteq> CHR ''-'') (take 7 (drop 9 sid))\<rparr>)\<rparr>))"
proof (intro impI conjI)
  assume ok: "registry_ok st"
  {
    assume "py_int (take 4 sid) = None \<or> py_int (take 2 (drop 4 sid)) = None
        \<or> py_int (take 2 (drop 6 sid)) = None"
    then show "BusService_get sid st = (Inl ValueError, st)"
      by (intro BusService_get_fails[OF ok]) blast
  next
    assume "py_int (take 4 sid) = Some y \<and> py_int (take 2 (drop 4 sid)) = Some m
        \<and> py_int (take 2 (drop 6 sid)) = Some d \<and> py_date y m d = Inl e"
    then show "BusService_get sid st = (Inl ValueError, st)"
      by (intro BusService_get_fails[OF ok]) blast
  next
    assume "py_int (take 4 sid) = Some y \<and> py_int (take 2 (drop 4 sid)) = Some m
        \<and> py_int (take 2 (drop 6 sid)) = Some d \<and> py_date y m d = Inr vf"
    then show "\<exists>svc st'. BusService_get sid st = (Inr svc, st') \<and> s_id svc = sid
             \<and> valid_from svc = vf
             \<and> weekdays svc = map (\<lambda>c. c \<noteq> CHR ''-'') (take 7 (drop 9 sid))
             \<and> all_services st' sid = Some svc \<and> registry_ok st'"
      using BusService_get_decodes[OF ok, of sid y m d vf] by blast
  next
    assume a: "16 \<le> length sid \<and> list_all is_digit (take 8 sid)
        \<and> py_date (dec (take 4 sid)) (dec (take 2 (drop 4 sid))) (dec (take 2 (drop 6 sid))) = Inr vf"
    then have len: "16 \<le> length sid" and dig: "list_all is_digit (take 8 sid)"
      and pd: "py_date (dec (take 4 sid)) (dec (take 2 (drop 4 sid))) (dec (take 2 (drop 6 sid))) = Inr vf"
      by simp_all
    note f = date_fields_digits[OF len dig]
    from BusService_get_decodes[OF ok f pd] obtain svc st' where
      r: "BusService_get sid st = (Inr svc, st')" "s_id svc = sid" "valid_from svc = vf"
        "weekdays svc = map (\<lambda>c. c \<noteq> CHR ''-'') (take 7 (drop 9 sid))"
        "all_services st' sid = Some svc" "registry_ok st'"
      by blast
    have l: "length (take 7 (drop 9 sid)) = 7" using len by simp
    have n: "\<forall>i<7. map (\<lambda>c. c \<noteq> CHR ''-'') (take 7 (drop 9 sid)) ! i = (sid ! (9 + i) \<noteq> CHR ''-'')"
      using len l by simp
    show "\<exists>svc st'. BusService_get sid st = (Inr svc, st') \<and> s_id svc = sid
             \<and> valid_from svc = vf
             \<and> year vf = dec (take 4 sid)
             \<and> month vf = dec (take 2 (drop 4 sid))
             \<and> day vf = dec (take 2 (drop 6 sid))
             \<and> length (weekdays svc) = 7
             \<and> (\<forall>i<7. weekdays svc ! i = (sid ! (9 + i) \<noteq> CHR ''-''))
             \<and> all_services st' sid = Some svc \<and> registry_ok st'"
      using r l n py_date_fields[OF pd] by auto
  next
    assume "all_services st sid = Some s"
    then show "BusService_get sid st = (Inr s, st)" by (simp add: BusService_get_def)
  next
    assume "all_services st sid = Some s"
    then show "decodes_to sid s" using ok by (simp add: registry_ok_def)
  next
    assume "all_services st sid = None
        \<and> py_int (take 4 sid) = Some y \<and> py_int (take 2 (drop 4 sid)) = Some m
        \<and> py_int (take 2 (drop 6 sid)) = Some d \<and> py_date y m d = Inr vf"
    then show "BusService_get sid st =
            (Inr \<lparr>s_id = sid, trips = Map.empty, valid_from = vf,
                  weekdays = map (\<lambda>c. c \<noteq> CHR ''-'') (take 7 (drop 9 sid))\<rparr>,
             st\<lparr>all_services := (all_services st)(sid \<mapsto>
                  \<lparr>s_id = sid, trips = Map.empty, valid_from = vf,
                   weekdays = map (\<lambda>c. c \<noteq> CHR ''-'') (take 7 (drop 9 sid))\<rparr>)\<rparr>)"
      using BusService_init_decodes[of sid y m d vf st] by (simp add: BusService_get_def)
  }
qed

theorem BusService_get_decode_witness:
  "BusService_get ''2024--15-MTWTFSS'' empty_catalog = (Inl ValueError, empty_catalog)
   \<and> BusService_get ''20241301-MTWTFSS'' empty_catalog = (Inl ValueError, empty_catalog)
   \<and> (case fst (BusService_get ''2_240115-MTWTFSS'' empty_catalog) of
         Inl err \<Rightarrow> False
       | Inr svc \<Rightarrow> valid_from svc = \<lparr>year = 224, month = 1, day = 15\<rparr>
           \<and> weekdays svc = [True, True, True, True, True, True, True])
   \<and> (case fst (BusService_get ''20240101-MTWTFSS'' catalog_a) of
         Inl err \<Rightarrow> False
       | Inr svc \<Rightarrow> valid_from svc = \<lparr>year = 2024, month = 1, day = 1\<rparr>
           \<and> length (weekdays svc) = 7 \<and> weekdays svc ! 0)
   \<and> all_services catalog_a ''20240101-MTWTFSS'' \<noteq> None"
proof -
  note ok = registry_ok_empty
  have h1: "py_int (take 4 ''2024--15-MTWTFSS'') = None
      \<or> py_int (take 2 (drop 4 ''2024--15-MTWTFSS'')) = None
      \<or> py_int (take 2 (drop 6 ''2024--15-MTWTFSS'')) = None"
    by (simp add: int_defs)
  from BusService_get_decode[of empty_catalog "''2024--15-MTWTFSS''"] ok h1
  have r1: "BusService_get ''2024--15-MTWTFSS'' empty_catalog = (Inl ValueError, empty_catalog)"
    by blast
  have h2: "py_int (take 4 ''20241301-MTWTFSS'') = Some 2024
      \<and> py_int (take 2 (drop 4 ''20241301-MTWTFSS'')) = Some 13
      \<and> py_int (take 2 (drop 6 ''20241301-MTWTFSS'')) = Some 1
      \<and> py_date 2024 13 1 = Inl ValueError"
    by (simp add: int_defs py_date_def)
  from BusService_get_decode[of empty_catalog "''20241301-MTWTFSS''" 2024 13 1 ValueError] ok h2
  have r2: "BusService_get ''20241301-MTWTFSS'' empty_catalog = (Inl ValueError, empty_catalog)"
    by blast
  have h3: "py_int (take 4 ''2_240115-MTWTFSS'') = Some 224
      \<and> py_int (take 2 (drop 4 ''2_240115-MTWTFSS'')) = Some 1
      \<and> py_int (take 2 (drop 6 ''2_240115-MTWTFSS'')) = Some 15
      \<and> py_date 224 1 15 = Inr \<lparr>year = 224, month = 1, day = 15\<rparr>"
    by (simp add: int_defs py_date_def days_in_month_def)
  from BusService_get_decode[of empty_catalog "''2_240115-MTWTFSS''" 224 1 15 _
      "\<lparr>year = 224, month = 1, day = 15\<rparr>"] ok h3
  obtain svc3 st3 where r3: "BusService_get ''2_240115-MTWTFSS'' empty_catalog = (Inr svc3, st3)"
      "valid_from svc3 = \<lparr>year = 224, month = 1, day = 15\<rparr>"
      "weekdays svc3 = map (\<lambda>c. c \<noteq> CHR ''-'') (take 7 (drop 9 ''2_240115-MTWTFSS''))"
    by blast
  have h4: "16 \<le> length ''20240101-MTWTFSS'' \<and> list_all is_digit (take 8 ''20240101-MTWTFSS'')
      \<and> py_date (dec (take 4 ''20240101-MTWTFSS'')) (dec (take 2 (drop 4 ''20240101-MTWTFSS'')))
           (dec (take 2 (drop 6 ''20240101-MTWTFSS''))) = Inr \<lparr>year = 2024, month = 1, day = 1\<rparr>"
    by (simp add: is_digit_def dec_def digit_val_def py_date_def days_in_month_def)
  from BusService_get_decode[of catalog_a "''20240101-MTWTFSS''" _ _ _ _
      "\<lparr>year = 2024, month = 1, day = 1\<rparr>"] registry_ok_catalog_a h4
  obtain svc4 st4 where r4: "BusService_get ''20240101-MTWTFSS'' catalog_a = (Inr svc4, st4)"
      "valid_from svc4 = \<lparr>year = 2024, month = 1, day = 1\<rparr>"
      "length (weekdays svc4) = 7"
      "\<forall>i<7. weekdays svc4 ! i = (''20240101-MTWTFSS'' ! (9 + i) \<noteq> CHR ''-'')"
    by blast
  from r4(4) have w0: "weekdays svc4 ! 0" by simp
  have reg: "all_services catalog_a ''20240101-MTWTFSS'' \<noteq> None"
    by (simp add: catalog_a_eval)
  show ?thesis using r1 r2 r3 r4(1,2,3) w0 reg by simp
qed

text \<open>
  The claim as written fails for a code of the wrong length: the eight characters
  \<open>20240115\<close> decode without an error, to a service with an empty weekday list.
\<close>

theorem short_code_decodes_counterexample:
  "length ''20240115'' = 8
   \<and> fst (BusService_get ''20240115'' empty_catalog) =
       Inr \<lparr>s_id = ''20240115'', trips = Map.empty,
            valid_from = \<lparr>year = 2024, month = 1, day = 15\<rparr>, weekdays = []\<rparr>"
  by (simp add: BusService_get_def BusService_init_def empty_catalog_def int_defs
      py_date_def days_in_month_def Let_def)

section \<open>Loading the static resources\<close>

lemma load_trip_row_bad:
  "wrong_field_count 8 bad \<Longrightarrow> load_trip_row bad st = (Inl AssertionError, st)"
  by (simp add: wrong_field_count_def load_trip_row_def Let_def)

lemma load_trip_lines_index:
  "load_trip_lines (Suc i) xs st = load_trip_lines (Suc 0) xs st"
proof (induction xs arbitrary: i st)
  case Nil
  then show ?case by simp
next
  case (Cons x xs)
  show ?case
  proof (cases "load_trip_row x st")
    case (Pair r s)
    then show ?thesis using Cons.IH[of "Suc i" s] Cons.IH[of "Suc 0" s]
      by (cases r) (simp_all add: Let_def)
  qed
qed

lemma load_trip_lines_append:
  "load_trip_lines (Suc 0) (xs @ ys) st =
     (case load_trip_lines (Suc 0) xs st of
        (Inl e, s) \<Rightarrow> (Inl e, s)
      | (Inr u, s) \<Rightarrow> load_trip_lines (Suc 0) ys s)"
proof (induction xs arbitrary: st)
  case Nil
  then show ?case by simp
next
  case (Cons x xs)
  show ?case
  proof (cases "load_trip_row x st")
    case (Pair r s)
    then show ?thesis using Cons.IH[of s] load_trip_lines_index[of "Suc 0"]
      by (cases r) (simp_all add: Let_def)
  qed
qed

lemma load_trip_lines_bad:
  "wrong_field_count 8 bad \<Longrightarrow> load_trip_lines (Suc i) (bad # post) st = (Inl AssertionError, st)"
  by (simp add: load_trip_row_bad Let_def)

lemma BusRoute_initialize_bad_row:
  assumes "pre \<noteq> []" "wrong_field_count 8 bad"
  shows "BusRoute_initialize (Some (pre @ bad # post)) st =
       (case BusRoute_initialize (Some pre) st of
          (Inl e, s) \<Rightarrow> (Inl e, s)
        | (Inr u, s) \<Rightarrow> (Inl AssertionError, s))"
proof -
  obtain h rest where p: "pre = h # rest" using assms(1) by (cases pre) auto
  show ?thesis
    using load_trip_lines_bad[OF assms(2), of 0]
    by (simp add: p BusRoute_initialize_def load_trip_lines_append
        split: prod.splits sum.splits)
qed

lemma load_stop_row_bad:
  "wrong_field_count 5 bad \<Longrightarrow> load_stop_row fl bad st = (Inl AssertionError, st)"
  by (simp add: wrong_field_count_def load_stop_row_def Let_def)

lemma load_stop_lines_index:
  "load_stop_lines fl (Suc i) xs st = load_stop_lines fl (Suc 0) xs st"
proof (induction xs arbitrary: i st)
  case Nil
  then show ?case by simp
next
  case (Cons x xs)
  show ?case
  proof (cases "load_stop_row fl x st")
    case (Pair r s)
    then show ?thesis using Cons.IH[of "Suc i" s] Cons.IH[of "Suc 0" s]
      by (cases r) (simp_all add: Let_def)
  qed
qed

lemma load_stop_lines_append:
  "load_stop_lines fl (Suc 0) (xs @ ys) st =
     (case load_stop_lines fl (Suc 0) xs st of
        (Inl e, s) \<Rightarrow> (Inl e, s)
      | (Inr u, s) \<Rightarrow> load_stop_lines fl (Suc 0) ys s)"
proof (induction xs arbitrary: st)
  case Nil
  then show ?case by simp
next
  case (Cons x xs)
  show ?case
  proof (cases "load_stop_row fl x st")
    case (Pair r s)
    then show ?thesis using Cons.IH[of s] load_stop_lines_index[of fl "Suc 0"]
      by (cases r) (simp_all add: Let_def)
  qed
qed

lemma load_stop_lines_bad:
  "wrong_field_count 5 bad \<Longrightarrow>
     load_stop_lines fl (Suc i) (bad # post) st = (Inl AssertionError, st)"
  by (simp add: load_stop_row_bad Let_def)

lemma BusStop_initialize_bad_row:
  assumes "pre \<noteq> []" "wrong_field_count 5 bad"
  shows "BusStop_initialize fl (Some (pre @ bad # post)) st =
       (case BusStop_initialize fl (Some pre) st of
          (Inl e, s) \<Rightarrow> (Inl e, s)
        | (Inr u, s) \<Rightarrow> (Inl AssertionError, s))"
proof -
  obtain h rest where p: "pre = h # rest" using assms(1) by (cases pre) auto
  show ?thesis
    using load_stop_lines_bad[OF assms(2), of fl 0]
    by (simp add: p BusStop_initialize_def load_stop_lines_append
        split: prod.splits sum.splits)
qed

text \<open>
  C7 (as the code has it): when a line after the header is read as a row and has the
  wrong number of fields (not 8 in trips.txt, not 5 in stops.txt), the load fails: with
  the error of an earlier row if one fails first, with AssertionError otherwise.  The
  registries are left as the rows before that line made them, and the lines after it are
  not read.
\<close>

theorem load_fails_at_bad_row:
  "(pre \<noteq> [] \<and> wrong_field_count 8 bad \<longrightarrow>
      BusRoute_initialize (Some (pre @ bad # post)) st =
        (case BusRoute_initialize (Some pre) st of
           (Inl e, s) \<Rightarrow> (Inl e, s)
         | (Inr u, s) \<Rightarrow> (Inl AssertionError, s))
      \<and> (\<exists>e. fst (BusRoute_initialize (Some (pre @ bad # post)) st) = Inl e))
   \<and> (spre \<noteq> [] \<and> wrong_field_count 5 sbad \<longrightarrow>
      BusStop_initialize fl (Some (spre @ sbad # spost)) stops =
        (case BusStop_initialize fl (Some spre) stops of
           (Inl e, s) \<Rightarrow> (Inl e, s)
         | (Inr u, s) \<Rightarrow> (Inl AssertionError, s))
      \<and> (\<exists>e. fst (BusStop_initialize fl (Some (spre @ sbad # spost)) stops) = Inl e))"
proof (intro conjI impI)
  assume a: "pre \<noteq> [] \<and> wrong_field_count 8 bad"
  then show r: "BusRoute_initialize (Some (pre @ bad # post)) st =
        (case BusRoute_initialize (Some pre) st of
           (Inl e, s) \<Rightarrow> (Inl e, s)
         | (Inr u, s) \<Rightarrow> (Inl AssertionError, s))"
    by (simp add: BusRoute_initialize_bad_row)
  show "\<exists>e. fst (BusRoute_initialize (Some (pre @ bad # post)) st) = Inl e"
    unfolding r by (simp split: prod.splits sum.splits)
next
  assume a: "spre \<noteq> [] \<and> wrong_field_count 5 sbad"
  then show r: "BusStop_initialize fl (Some (spre @ sbad # spost)) stops =
        (case BusStop_initialize fl (Some spre) stops of
           (Inl e, s) \<Rightarrow> (Inl e, s)
         | (Inr u, s) \<Rightarrow> (Inl AssertionError, s))"
    by (simp add: BusStop_initialize_bad_row)
  show "\<exists>e. fst (BusStop_initialize fl (Some (spre @ sbad # spost)) stops) = Inl e"
    unfolding r by (simp split: prod.splits sum.splits)
qed

lemma trips_two_rows:
  "fst (BusRoute_initialize (Some [trips_header, ''ST.1,20240101-MTWTFSS,t1,A,1,0,b1,s1''])
      empty_catalog) = Inr ()"
  by (simp add: catalog_defs int_defs py_date_def days_in_month_def Let_def trips_header_def)

lemma stops_two_rows:
  "fst (BusStop_initialize sample_float (Some [''stop_id,stop_name'', ''a,Hlemmur,64.1,-21.9,0''])
      Map.empty) = Inr ()"
  by (simp add: stop_defs sample_float_def strip_by_def Let_def)

theorem load_fails_at_bad_row_witness:
  "fst (BusRoute_initialize
         (Some ([trips_header, ''ST.1,20240101-MTWTFSS,t1,A,1,0,b1,s1'']
                @ ''ST.2,20240101-MTWTFSS,t2,B,2,0,b2'' # []))
         empty_catalog) = Inl AssertionError
   \<and> fst (BusStop_initialize sample_float
         (Some ([''stop_id,stop_name'', ''a,Hlemmur,64.1,-21.9,0''] @ ''b,Mjodd,64.1,-21.9'' # []))
         Map.empty) = Inl AssertionError"
proof -
  have h1: "[trips_header, ''ST.1,20240101-MTWTFSS,t1,A,1,0,b1,s1''] \<noteq> []
      \<and> wrong_field_count 8 ''ST.2,20240101-MTWTFSS,t2,B,2,0,b2''"
    by (simp add: wrong_field_count_def strip_def strip_by_def isspace_def)
  have h2: "[''stop_id,stop_name'', ''a,Hlemmur,64.1,-21.9,0''] \<noteq> []
      \<and> wrong_field_count 5 ''b,Mjodd,64.1,-21.9''"
    by (simp add: wrong_field_count_def strip_def strip_by_def isspace_def)
  from load_fails_at_bad_row[where pre = "[trips_header, ''ST.1,20240101-MTWTFSS,t1,A,1,0,b1,s1'']"
      and bad = "''ST.2,20240101-MTWTFSS,t2,B,2,0,b2''" and post = "[]" and st = empty_catalog
      and spre = "[''stop_id,stop_name'', ''a,Hlemmur,64.1,-21.9,0'']"
      and sbad = "''b,Mjodd,64.1,-21.9''" and fl = sample_float and spost = "[]"
      and stops = Map.empty] h1 h2
  have r: "BusRoute_initialize
         (Some ([trips_header, ''ST.1,20240101-MTWTFSS,t1,A,1,0,b1,s1'']
                @ ''ST.2,20240101-MTWTFSS,t2,B,2,0,b2'' # [])) empty_catalog =
        (case BusRoute_initialize (Some [trips_header, ''ST.1,20240101-MTWTFSS,t1,A,1,0,b1,s1''])
                empty_catalog of
           (Inl e, s) \<Rightarrow> (Inl e, s)
         | (Inr u, s) \<Rightarrow> (Inl AssertionError, s))"
    and q: "BusStop_initialize sample_float
         (Some ([''stop_id,stop_name'', ''a,Hlemmur,64.1,-21.9,0''] @ ''b,Mjodd,64.1,-21.9'' # []))
         Map.empty =
        (case BusStop_initialize sample_float
                (Some [''stop_id,stop_name'', ''a,Hlemmur,64.1,-21.9,0'']) Map.empty of
           (Inl e, s) \<Rightarrow> (Inl e, s)
         | (Inr u, s) \<Rightarrow> (Inl AssertionError, s))"
    by blast+
  show ?thesis
    unfolding r q using trips_two_rows stops_two_rows
    by (auto split: prod.splits sum.splits)
qed

text \<open>
  The claim as written fails: after the failed load the route, service and trip
  registries (and the stop registry) hold the entries of the row before the short one.
\<close>

theorem partial_catalog_after_failed_load_counterexample:
  "fst (BusRoute_initialize (Some trips_short_row) empty_catalog) = Inl AssertionError
   \<and> all_routes (snd (BusRoute_initialize (Some trips_short_row) empty_catalog)) ''1''
       = Some \<lparr>r_id = ''1'', services = [''20240101-MTWTFSS'']\<rparr>
   \<and> all_trips (snd (BusRoute_initialize (Some trips_short_row) empty_catalog)) ''t1''
       = Some \<lparr>t_id = ''t1'', headsign = ''A'', short_name = ''1'', direction = ''0'', block = ''b1''\<rparr>
   \<and> all_routes empty_catalog ''1'' = None
   \<and> all_trips empty_catalog ''t1'' = None
   \<and> fst (BusStop_initialize sample_float (Some stops_short_row) Map.empty) = Inl AssertionError
   \<and> snd (BusStop_initialize sample_float (Some stops_short_row) Map.empty) ''a''
       = Some \<lparr>stop_id = ''a'', name = ''Hlemmur'',
               stop_location = (Finite 64.1, Finite (- 21.9))\<rparr>"
  by (simp add: catalog_defs stop_defs int_defs py_date_def days_in_month_def Let_def
      trips_header_def trips_short_row_def stops_short_row_def sample_float_def)

lemma keeps_refl: "keeps st st"
  by (simp add: keeps_def)

lemma keeps_trans: "keeps a b \<Longrightarrow> keeps b c \<Longrightarrow> keeps a c"
  unfolding keeps_def by blast

lemma BusService_get_keeps: "keeps st (snd (BusService_get k st))"
  by (auto simp: keeps_def BusService_get_def BusService_init_def Let_def
      split: option.splits sum.splits)

lemma BusRoute_get_keeps: "keeps st (snd (BusRoute_get k st))"
  by (auto simp: keeps_def BusRoute_get_def BusRoute_init_def Let_def split: option.splits)

lemma add_service_keeps: "keeps st (add_service r s st)"
  by (auto simp: keeps_def add_service_def split: option.splits)

lemma add_trip_keeps: "keeps st (add_trip s t st)"
  by (auto simp: keeps_def add_trip_def split: option.splits)

lemma BusTrip_init_keeps: "keeps st (snd (BusTrip_init a b c d e st))"
  by (auto simp: keeps_def BusTrip_init_def Let_def)

lemma load_trip_row_keeps: "keeps st (snd (load_trip_row l st))"
proof -
  let ?f = "split_on CHR '','' (strip l)"
  show ?thesis
  proof (cases "strip l = [] \<or> length ?f \<noteq> 8")
    case True
    then show ?thesis by (auto simp: load_trip_row_def Let_def keeps_refl)
  next
    case False
    show ?thesis
    proof (cases "split_on CHR ''.'' (?f ! 0)")
      case Nil
      then show ?thesis using False by (simp add: load_trip_row_def Let_def keeps_refl)
    next
      case (Cons a as)
      note outer = Cons
      show ?thesis
      proof (cases as)
        case Nil
        then show ?thesis using False outer by (simp add: load_trip_row_def Let_def keeps_refl)
      next
        case (Cons rid rest)
        obtain route st1 where g: "BusRoute_get rid st = (route, st1)" by force
        obtain r st2 where h: "BusService_get (?f ! 1) st1 = (r, st2)" by force
        have k1: "keeps st st1" using BusRoute_get_keeps[of st rid] g by simp
        have k2: "keeps st1 st2" using BusService_get_keeps[of st1 "?f ! 1"] h by simp
        show ?thesis
        proof (cases r)
          case (Inl e)
          then have "load_trip_row l st = (Inl e, st2)"
            using False outer Cons g h by (simp add: load_trip_row_def Let_def)
          then show ?thesis using keeps_trans[OF k1 k2] by simp
        next
          case (Inr service)
          let ?st3 = "add_service rid service st2"
          obtain trip st4 where
            t: "BusTrip_init (?f ! 2) (?f ! 3) (?f ! 4) (?f ! 5) (?f ! 6) ?st3 = (trip, st4)"
            by force
          have k3: "keeps st2 ?st3" by (rule add_service_keeps)
          have k4: "keeps ?st3 st4"
            using BusTrip_init_keeps[of ?st3 "?f ! 2" "?f ! 3" "?f ! 4" "?f ! 5" "?f ! 6"] t by simp
          have k5: "keeps st4 (add_trip (?f ! 1) trip st4)" by (rule add_trip_keeps)
          have "load_trip_row l st = (Inr (), add_trip (?f ! 1) trip st4)"
            using False outer Cons g h Inr t by (simp add: load_trip_row_def Let_def)
          then show ?thesis
            using keeps_trans[OF keeps_trans[OF keeps_trans[OF keeps_trans[OF k1 k2] k3] k4] k5]
            by simp
        qed
      qed
    qed
  qed
qed

lemma load_trip_lines_keeps: "keeps st (snd (load_trip_lines i ls st))"
proof (induction ls arbitrary: i st)
  case Nil
  then show ?case by (simp add: keeps_refl)
next
  case (Cons l ls)
  show ?case
  proof (cases "i = 0")
    case True
    then show ?thesis using Cons.IH[of st 1] by simp
  next
    case False
    obtain r s where p: "load_trip_row l st = (r, s)" by force
    have k: "keeps st s" using load_trip_row_keeps[of st l] p by simp
    show ?thesis
    proof (cases r)
      case (Inl e)
      then show ?thesis using False p k by (simp add: Let_def)
    next
      case (Inr u)
      then show ?thesis using False p keeps_trans[OF k Cons.IH[of s "i + 1"]] by (simp add: Let_def)
    qed
  qed
qed

lemma BusRoute_initialize_keeps: "keeps st (snd (BusRoute_initialize src st))"
proof (cases src)
  case None
  then show ?thesis by (simp add: BusRoute_initialize_def keeps_def)
next
  case (Some ls)
  have "keeps st (st\<lparr>all_routes := Map.empty\<rparr>)" by (simp add: keeps_def)
  from keeps_trans[OF this load_trip_lines_keeps[of "st\<lparr>all_routes := Map.empty\<rparr>" 0 ls]]
  show ?thesis using Some by (simp add: BusRoute_initialize_def)
qed

text \<open>
  C8: the claim says that a second load leaves exactly the entries of the new source in
  the route, service and trip registries.  \<open>BusRoute.initialize\<close> empties the route
  registry only: after loading \<open>trips_a\<close> and then \<open>trips_b\<close>, route 1 is gone, but the
  service 20240102-MTWTF-- and the trips t1 and t3, which \<open>trips_b\<close> does not have, are
  still registered, and the service that both sources name still holds trip t1.
\<close>

theorem reload_keeps_services_and_trips:
  "fst (BusRoute_initialize (Some trips_a) empty_catalog) = Inr ()
   \<and> fst (BusRoute_initialize (Some trips_b) catalog_a) = Inr ()
   \<and> all_routes catalog_ab ''1'' = None
   \<and> all_routes catalog_ab ''2'' = Some \<lparr>r_id = ''2'', services = [''20240101-MTWTFSS'']\<rparr>
   \<and> map_option s_id (all_services catalog_ab ''20240102-MTWTF--'') = Some ''20240102-MTWTF--''
   \<and> all_services catalog_b ''20240102-MTWTF--'' = None
   \<and> map_option t_id (all_trips catalog_ab ''t1'') = Some ''t1''
   \<and> map_option t_id (all_trips catalog_ab ''t3'') = Some ''t3''
   \<and> all_trips catalog_b ''t1'' = None
   \<and> all_trips catalog_b ''t3'' = None
   \<and> (case all_services catalog_ab ''20240101-MTWTFSS'' of
         None \<Rightarrow> None | Some s \<Rightarrow> map_option t_id (trips s ''t1'')) = Some ''t1''
   \<and> (case all_services catalog_b ''20240101-MTWTFSS'' of
         None \<Rightarrow> None | Some s \<Rightarrow> map_option t_id (trips s ''t1'')) = None"
  by (simp add: catalog_ab_def catalog_b_def catalog_a_eval trips_b_def trips_header_def catalog_defs py_int_def strip_by_def
      int_space_def digits_val_def is_digit_def digit_val_def py_date_def days_in_month_def Let_def
      catalog_a_def trips_a_def)

section \<open>The refresh protocol\<close>

lemma load_state_ok_timestamp:
  "load_state fl e st = (Inr u, st') \<Longrightarrow> timestamp st' = Some (now_stamp e)"
  by (auto simp: load_state_def Let_def split: prod.splits sum.splits option.splits)

lemma refresh_state_ok_timestamp:
  "refresh_state fl e st = (Inr u, st') \<Longrightarrow> \<exists>t. timestamp st' = Some t"
  by (auto simp: refresh_state_def split: option.splits if_splits dest: load_state_ok_timestamp)

text \<open>
  C3: when the timestamp is less than 60 seconds old at the call, \<open>refresh_state\<close> returns
  with the whole state unchanged, so without an HTTP request or a read of the status
  file, and with the stored snapshot and timestamp as they were; \<open>all_buses\<close> and
  \<open>buses_on_route\<close> then add nothing to the log of requests and reads.  After a call of
  \<open>all_buses\<close> that returned, a second call within 60 seconds of the timestamp returns
  the same dictionary and leaves the state, and so the log, unchanged.
\<close>

theorem refresh_state_fresh:
  "(timestamp st = Some t \<and> now_check e - t < 60000000 \<longrightarrow>
      refresh_state fl e st = (Inr (), st)
      \<and> Bus_all_buses fl e st = (Inr (all_buses st), st)
      \<and> io_log (snd (buses_on_route fl e r st)) = io_log st
      \<and> timestamp (snd (buses_on_route fl e r st)) = timestamp st)
   \<and> (Bus_all_buses fl e1 st0 = (Inr m, st1) \<longrightarrow>
      (\<exists>t1. timestamp st1 = Some t1 \<and>
         (now_check e2 - t1 < 60000000 \<longrightarrow> Bus_all_buses fl e2 st1 = (Inr m, st1))))"
proof (intro conjI impI)
  assume a: "timestamp st = Some t \<and> now_check e - t < 60000000"
  then show r: "refresh_state fl e st = (Inr (), st)" by (simp add: refresh_state_def)
  show "Bus_all_buses fl e st = (Inr (all_buses st), st)" by (simp add: Bus_all_buses_def r)
  show "io_log (snd (buses_on_route fl e r st)) = io_log st"
    by (simp add: buses_on_route_def r split: option.splits)
  show "timestamp (snd (buses_on_route fl e r st)) = timestamp st"
    by (simp add: buses_on_route_def r split: option.splits)
next
  assume b: "Bus_all_buses fl e1 st0 = (Inr m, st1)"
  then obtain u where r: "refresh_state fl e1 st0 = (Inr u, st1)" and m: "m = all_buses st1"
    by (auto simp: Bus_all_buses_def split: prod.splits sum.splits)
  from refresh_state_ok_timestamp[OF r] obtain t1 where t1: "timestamp st1 = Some t1" by blast
  show "\<exists>t1. timestamp st1 = Some t1 \<and>
         (now_check e2 - t1 < 60000000 \<longrightarrow> Bus_all_buses fl e2 st1 = (Inr m, st1))"
    using t1 m by (simp add: Bus_all_buses_def refresh_state_def)
qed

theorem refresh_state_fresh_witness:
  "refresh_state sample_float (all_down 59999999) loaded_state = (Inr (), loaded_state)
   \<and> io_log (snd (buses_on_route sample_float (all_down 59999999) (Some ''1'') loaded_state))
       = [HttpGet]
   \<and> Bus_all_buses sample_float (feed_up 0) initial_state
       = (Inr (all_buses loaded_state), loaded_state)
   \<and> Bus_all_buses sample_float (all_down 59999999) loaded_state
       = (Inr (all_buses loaded_state), loaded_state)"
proof -
  have h: "timestamp loaded_state = Some 0 \<and> now_check (all_down 59999999) - 0 < 60000000"
    by (simp add: loaded_state_def all_down_def)
  have f: "Bus_all_buses sample_float (feed_up 0) initial_state
      = (Inr (all_buses loaded_state), loaded_state)"
    by (simp add: Bus_all_buses_def bus_defs sample_defs int_defs)
  show ?thesis
    using refresh_state_fresh[of loaded_state 0 "all_down 59999999" sample_float "Some ''1''"
        "feed_up 0" initial_state "all_buses loaded_state" loaded_state "all_down 59999999"] h f
    by (simp add: loaded_state_def)
qed

lemma load_state_sources_down:
  assumes "remote_unavailable e" "local_unavailable e"
  shows "\<exists>err log. load_state fl e st = (Inl err, st\<lparr>all_buses := Some Map.empty, io_log := log\<rparr>)"
  using assms
  by (auto simp: remote_unavailable_def local_unavailable_def load_state_def fetch_state_def
      read_state_def Let_def split: http_outcome.splits file_outcome.splits option.splits)

text \<open>
  C1 (as the code has it): when a refresh is due and both the remote feed and the local
  file are unavailable, the refresh fails and the error reaches the caller, whether or
  not a snapshot was held before; the timestamp keeps its old value, and the snapshot is
  the empty dictionary that \<open>_load_state\<close> stored before it fetched.
\<close>

theorem failed_refresh_clears_snapshot:
  "remote_unavailable e \<and> local_unavailable e \<and> refresh_due e st \<longrightarrow>
     (\<exists>err. fst (refresh_state fl e st) = Inl err)
     \<and> all_buses (snd (refresh_state fl e st)) = Some Map.empty
     \<and> timestamp (snd (refresh_state fl e st)) = timestamp st"
proof (intro impI)
  assume a: "remote_unavailable e \<and> local_unavailable e \<and> refresh_due e st"
  then have r: "refresh_state fl e st = load_state fl e st"
    by (auto simp: refresh_state_def refresh_due_def split: option.splits)
  from a load_state_sources_down[of e fl st] obtain err log where
    "load_state fl e st = (Inl err, st\<lparr>all_buses := Some Map.empty, io_log := log\<rparr>)" by blast
  then show "(\<exists>err. fst (refresh_state fl e st) = Inl err)
     \<and> all_buses (snd (refresh_state fl e st)) = Some Map.empty
     \<and> timestamp (snd (refresh_state fl e st)) = timestamp st"
    by (simp add: r)
qed

theorem failed_refresh_clears_snapshot_witness:
  "fst (refresh_state sample_float (all_down 61000000) loaded_state) = Inl OSError
   \<and> sightings (snd (refresh_state sample_float (all_down 61000000) loaded_state)) (Some ''1'') = None
   \<and> timestamp (snd (refresh_state sample_float (all_down 61000000) loaded_state)) = Some 0"
proof -
  have h: "remote_unavailable (all_down 61000000) \<and> local_unavailable (all_down 61000000)
      \<and> refresh_due (all_down 61000000) loaded_state"
    by (simp add: remote_unavailable_def local_unavailable_def refresh_due_def all_down_def loaded_state_def)
  have e: "fst (refresh_state sample_float (all_down 61000000) loaded_state) = Inl OSError"
    by (simp add: bus_defs sample_defs)
  show ?thesis
    using failed_refresh_clears_snapshot[of "all_down 61000000" loaded_state sample_float] h e
    by (simp add: sightings_def loaded_state_def)
qed

text \<open>
  The claim as written fails: a process that holds a snapshot with a bus on route 1,
  more than 60 seconds old, loses it in a refresh that fails, and the call raises.
\<close>

theorem previous_snapshot_lost_counterexample:
  "sightings loaded_state (Some ''1'') = Some [sample_bus]
   \<and> fst (Bus_all_buses sample_float (all_down 61000000) loaded_state) = Inl OSError
   \<and> sightings (snd (Bus_all_buses sample_float (all_down 61000000) loaded_state)) (Some ''1'') = None"
  by (simp add: sightings_def Bus_all_buses_def bus_defs sample_defs)

text \<open>
  C2: the claim says that every failure of the remote fetch is answered from the local
  status file.  The code does so for a status other than 200, but \<open>requests.get\<close>
  raising and a body that does not parse are raised to the caller of \<open>all_buses\<close>, with
  the status file (here a readable one) never read.
\<close>

theorem fetch_exception_not_recovered:
  "Bus_all_buses sample_float (network_down 0) initial_state =
     (Inl RequestException, \<lparr>all_buses = Some Map.empty, timestamp = None, io_log = [HttpGet]\<rparr>)
   \<and> Bus_all_buses sample_float (body_malformed 0) initial_state =
     (Inl ParseError, \<lparr>all_buses = Some Map.empty, timestamp = None, io_log = [HttpGet]\<rparr>)"
  by (simp add: Bus_all_buses_def bus_defs sample_defs)

lemma fallback_on_bad_status:
  assumes "http e = Response c body" "c \<noteq> 200" "status_file e = FileRoot xroot"
  shows "load_state fl e st =
     (case load_buses fl (findall ''bus'' xroot)
             (st\<lparr>all_buses := Some Map.empty, io_log := io_log st @ [HttpGet, FileRead]\<rparr>) of
        (Inl err, s) \<Rightarrow> (Inl err, s)
      | (Inr u, s) \<Rightarrow> (Inr (), s\<lparr>timestamp := Some (now_stamp e)\<rparr>))"
  using assms by (simp add: load_state_def fetch_state_def read_state_def Let_def)

lemma fallback_on_bad_status_sample:
  "fst (Bus_all_buses sample_float (bad_status 0) initial_state) = Inr (Some [Some ''1'' \<mapsto> [sample_bus]])
  \<and> io_log (snd (Bus_all_buses sample_float (bad_status 0) initial_state)) = [HttpGet, FileRead]"
  by (simp add: Bus_all_buses_def bus_defs sample_defs int_defs)

lemma fetch_exception_raised:
  assumes "refresh_due e st" "http e = RequestFailed \<or> http e = Response 200 None"
  shows "Bus_all_buses fl e st =
     (Inl (if http e = RequestFailed then RequestException else ParseError),
      st\<lparr>all_buses := Some Map.empty, io_log := io_log st @ [HttpGet]\<rparr>)"
  using assms
  by (auto simp: Bus_all_buses_def refresh_state_def refresh_due_def load_state_def
      fetch_state_def Let_def split: option.splits)

section \<open>Reading a route from the snapshot\<close>

lemma load_bus_no_KeyError: "fst (load_bus fl b st) \<noteq> Inl KeyError"
  by (auto simp: load_bus_def Bus_init_def py_float_def py_int_of_def Let_def
      split: sum.splits option.splits prod.splits)

lemma load_buses_no_KeyError: "fst (load_buses fl bs st) \<noteq> Inl KeyError"
proof (induction bs arbitrary: st)
  case Nil
  then show ?case by simp
next
  case (Cons b bs)
  show ?case
  proof (cases "load_bus fl b st")
    case (Pair r st')
    then show ?thesis using load_bus_no_KeyError[of fl b st] Cons.IH[of st']
      by (cases r) auto
  qed
qed

lemma load_buses_KeyErrorD: "load_buses fl bs st = (Inl KeyError, s) \<Longrightarrow> False"
  using load_buses_no_KeyError[of fl bs st] by simp

lemma load_state_no_KeyError: "fst (load_state fl e st) \<noteq> Inl KeyError"
  by (auto dest: load_buses_KeyErrorD simp: load_state_def fetch_state_def read_state_def Let_def
      split: prod.splits sum.splits option.splits http_outcome.splits file_outcome.splits if_splits)

lemma refresh_state_no_KeyError: "fst (refresh_state fl e st) \<noteq> Inl KeyError"
  using load_state_no_KeyError by (auto simp: refresh_state_def split: option.splits)

text \<open>
  C10 (as the code has it): \<open>buses_on_route(r)\<close> never raises KeyError; when the refresh
  returns, the call returns the list stored under \<open>r\<close>, or an empty list when the
  snapshot has no key \<open>r\<close>, and the snapshot then maps \<open>r\<close> to that list; a following
  \<open>all_buses()\<close> that is served without a reload (within 60 seconds of the timestamp)
  returns a dictionary with key \<open>r\<close>.
\<close>

theorem buses_on_route_defaultdict:
  "fst (buses_on_route fl e r st) \<noteq> Inl KeyError
   \<and> (refresh_state fl e st = (Inr (), st1) \<and> all_buses st1 = Some m \<longrightarrow>
        buses_on_route fl e r st =
          (Inr (case m r of None \<Rightarrow> [] | Some xs \<Rightarrow> xs),
           st1\<lparr>all_buses := Some (m(r \<mapsto> (case m r of None \<Rightarrow> [] | Some xs \<Rightarrow> xs)))\<rparr>))
   \<and> (buses_on_route fl e r st = (Inr xs, st2) \<and> timestamp st2 = Some t
        \<and> now_check e2 - t < 60000000 \<longrightarrow>
        (\<exists>m2. Bus_all_buses fl e2 st2 = (Inr (Some m2), st2) \<and> m2 r = Some xs))"
proof (intro conjI impI)
  show "fst (buses_on_route fl e r st) \<noteq> Inl KeyError"
    using refresh_state_no_KeyError[of fl e st]
    by (auto simp: buses_on_route_def split: prod.splits sum.splits option.splits)
next
  assume a: "refresh_state fl e st = (Inr (), st1) \<and> all_buses st1 = Some m"
  show "buses_on_route fl e r st =
          (Inr (case m r of None \<Rightarrow> [] | Some xs \<Rightarrow> xs),
           st1\<lparr>all_buses := Some (m(r \<mapsto> (case m r of None \<Rightarrow> [] | Some xs \<Rightarrow> xs)))\<rparr>)"
  proof (cases "m r")
    case None
    then show ?thesis using a by (simp add: buses_on_route_def)
  next
    case (Some ys)
    then have "m(r \<mapsto> ys) = m" by (simp add: map_upd_triv)
    then show ?thesis using a Some by (simp add: buses_on_route_def)
  qed
next
  assume b: "buses_on_route fl e r st = (Inr xs, st2) \<and> timestamp st2 = Some t
        \<and> now_check e2 - t < 60000000"
  then have "\<exists>m2. all_buses st2 = Some m2 \<and> m2 r = Some xs"
    by (auto simp: buses_on_route_def split: prod.splits sum.splits option.splits)
  then show "\<exists>m2. Bus_all_buses fl e2 st2 = (Inr (Some m2), st2) \<and> m2 r = Some xs"
    using b by (auto simp: Bus_all_buses_def refresh_state_def)
qed

theorem buses_on_route_defaultdict_witness:
  "buses_on_route sample_float (feed_up 10000000) (Some ''99'') loaded_state =
     (Inr [], loaded_state\<lparr>all_buses := Some [Some ''1'' \<mapsto> [sample_bus], Some ''99'' \<mapsto> []]\<rparr>)
   \<and> sightings loaded_state (Some ''99'') = None
   \<and> (\<exists>m2. fst (Bus_all_buses sample_float (feed_up 20000000)
                (loaded_state\<lparr>all_buses := Some [Some ''1'' \<mapsto> [sample_bus], Some ''99'' \<mapsto> []]\<rparr>))
             = Inr (Some m2) \<and> m2 (Some ''99'') = Some [])"
proof -
  let ?m = "[Some ''1'' \<mapsto> [sample_bus]]"
  let ?st2 = "loaded_state\<lparr>all_buses := Some [Some ''1'' \<mapsto> [sample_bus], Some ''99'' \<mapsto> []]\<rparr>"
  have h1: "refresh_state sample_float (feed_up 10000000) loaded_state = (Inr (), loaded_state)
      \<and> all_buses loaded_state = Some ?m"
    by (simp add: refresh_state_def loaded_state_def feed_up_def)
  have r1: "buses_on_route sample_float (feed_up 10000000) (Some ''99'') loaded_state = (Inr [], ?st2)"
    using buses_on_route_defaultdict[of sample_float "feed_up 10000000" "Some ''99''" loaded_state
        loaded_state ?m] h1 by simp
  have h2: "timestamp ?st2 = Some 0 \<and> now_check (feed_up 20000000) - 0 < 60000000"
    by (simp add: loaded_state_def feed_up_def)
  have "\<exists>m2. Bus_all_buses sample_float (feed_up 20000000) ?st2 = (Inr (Some m2), ?st2)
      \<and> m2 (Some ''99'') = Some []"
    using buses_on_route_defaultdict[of sample_float "feed_up 10000000" "Some ''99''" loaded_state
        loaded_state ?m "[]" ?st2 0 "feed_up 20000000"] r1 h2 by simp
  then show ?thesis using r1 by (auto simp: sightings_def loaded_state_def)
qed

text \<open>
  The claim as written fails for a following \<open>all_buses()\<close> that reloads: the snapshot is
  replaced, and the inserted key 99 is not in the new one.
\<close>

theorem inserted_key_gone_after_reload_counterexample:
  "fst (buses_on_route sample_float (feed_up 10000000) (Some ''99'') loaded_state) = Inr []
   \<and> sightings (snd (buses_on_route sample_float (feed_up 10000000) (Some ''99'') loaded_state))
        (Some ''99'') = Some []
   \<and> fst (Bus_all_buses sample_float (feed_up 70000000)
        (snd (buses_on_route sample_float (feed_up 10000000) (Some ''99'') loaded_state)))
      = Inr (Some [Some ''1'' \<mapsto> [sample_bus]])
   \<and> [Some ''1'' \<mapsto> [sample_bus]] (Some ''99'') = None"
  by (simp add: buses_on_route_def Bus_all_buses_def sightings_def bus_defs sample_defs int_defs)


end
